theory Spec2Isabelle
  imports Main
begin

section \<open>Nodes, the object store and the tree\<close>

text \<open>
  The map of \<^verbatim>\<open>wavl.ts\<close> is a pointer structure: every node object holds references
  to its parent and its two children, and one shared object \<^verbatim>\<open>NIL\<close> stands for every
  absent child and for the parent of the root.  Object references are modelled as natural
  numbers, the object store as a function from references to node records, and
  \<^verbatim>\<open>new WAVLNode(...)\<close> takes the next unused reference.  \<^verbatim>\<open>NIL\<close> is reference 0.
  The key and the value of \<^verbatim>\<open>NIL\<close> (\<^verbatim>\<open>undefined as any\<close>) are never read by the
  program; the store holds some value of the key and value type there.
\<close>

type_synonym ref = nat

definition NIL :: ref where
  "NIL = 0"

datatype RankParity = Zero | One

text \<open>The operator \<^verbatim>\<open>~\<close> on the two values \<^verbatim>\<open>0\<close> and \<^verbatim>\<open>-1\<close>.\<close>

fun flip :: "RankParity \<Rightarrow> RankParity" where
  "flip Zero = One"
| "flip One = Zero"

record ('k, 'v) WAVLNode =
  key :: 'k
  val :: 'v
  parity :: RankParity
  parent :: ref
  left :: ref
  right :: ref
  removed :: bool

record ('k, 'v) WAVLTree =
  compare :: "'k \<Rightarrow> 'k \<Rightarrow> int"
  root :: ref
  tsize :: int
  heap :: "ref \<Rightarrow> ('k, 'v) WAVLNode"
  fresh :: ref

datatype Branch = Left | Right

datatype error = StaleCursor | KeyOrderViolation | InvalidRange | ConsumedRange

text \<open>The comparators \<^verbatim>\<open>ascending\<close> and \<^verbatim>\<open>descending\<close>.\<close>

definition ascending :: "'k::linorder \<Rightarrow> 'k \<Rightarrow> int" where
  "ascending a b = (if a < b then - 1 else if a > b then 1 else 0)"

definition descending :: "'k::linorder \<Rightarrow> 'k \<Rightarrow> int" where
  "descending a b = (if a > b then - 1 else if a < b then 1 else 0)"

subsection \<open>Reading and writing the fields of a node\<close>

definition key_of :: "('k, 'v) WAVLTree \<Rightarrow> ref \<Rightarrow> 'k" where
  "key_of t n = key (heap t n)"

definition val_of :: "('k, 'v) WAVLTree \<Rightarrow> ref \<Rightarrow> 'v" where
  "val_of t n = val (heap t n)"

definition parity_of :: "('k, 'v) WAVLTree \<Rightarrow> ref \<Rightarrow> RankParity" where
  "parity_of t n = parity (heap t n)"

definition parent_of :: "('k, 'v) WAVLTree \<Rightarrow> ref \<Rightarrow> ref" where
  "parent_of t n = parent (heap t n)"

definition left_of :: "('k, 'v) WAVLTree \<Rightarrow> ref \<Rightarrow> ref" where
  "left_of t n = left (heap t n)"

definition right_of :: "('k, 'v) WAVLTree \<Rightarrow> ref \<Rightarrow> ref" where
  "right_of t n = right (heap t n)"

definition removed_of :: "('k, 'v) WAVLTree \<Rightarrow> ref \<Rightarrow> bool" where
  "removed_of t n = removed (heap t n)"

definition set_val :: "ref \<Rightarrow> 'v \<Rightarrow> ('k, 'v) WAVLTree \<Rightarrow> ('k, 'v) WAVLTree" where
  "set_val n x t = t\<lparr>heap := (heap t)(n := (heap t n)\<lparr>val := x\<rparr>)\<rparr>"

definition set_parity :: "ref \<Rightarrow> RankParity \<Rightarrow> ('k, 'v) WAVLTree \<Rightarrow> ('k, 'v) WAVLTree" where
  "set_parity n x t = t\<lparr>heap := (heap t)(n := (heap t n)\<lparr>parity := x\<rparr>)\<rparr>"

definition set_parent :: "ref \<Rightarrow> ref \<Rightarrow> ('k, 'v) WAVLTree \<Rightarrow> ('k, 'v) WAVLTree" where
  "set_parent n x t = t\<lparr>heap := (heap t)(n := (heap t n)\<lparr>parent := x\<rparr>)\<rparr>"

definition set_left :: "ref \<Rightarrow> ref \<Rightarrow> ('k, 'v) WAVLTree \<Rightarrow> ('k, 'v) WAVLTree" where
  "set_left n x t = t\<lparr>heap := (heap t)(n := (heap t n)\<lparr>left := x\<rparr>)\<rparr>"

definition set_right :: "ref \<Rightarrow> ref \<Rightarrow> ('k, 'v) WAVLTree \<Rightarrow> ('k, 'v) WAVLTree" where
  "set_right n x t = t\<lparr>heap := (heap t)(n := (heap t n)\<lparr>right := x\<rparr>)\<rparr>"

definition set_removed :: "ref \<Rightarrow> bool \<Rightarrow> ('k, 'v) WAVLTree \<Rightarrow> ('k, 'v) WAVLTree" where
  "set_removed n x t = t\<lparr>heap := (heap t)(n := (heap t n)\<lparr>removed := x\<rparr>)\<rparr>"

definition set_root :: "ref \<Rightarrow> ('k, 'v) WAVLTree \<Rightarrow> ('k, 'v) WAVLTree" where
  "set_root x t = t\<lparr>root := x\<rparr>"

text \<open>
  The constructor of \<^verbatim>\<open>WAVLNode\<close>: the three links of a new node point at the node
  itself and it is not removed.
\<close>

definition new_node :: "'k \<Rightarrow> 'v \<Rightarrow> RankParity \<Rightarrow> ref \<Rightarrow> ('k, 'v) WAVLNode" where
  "new_node k v p self =
     \<lparr>key = k, val = v, parity = p, parent = self, left = self, right = self, removed = False\<rparr>"

definition alloc :: "'k \<Rightarrow> 'v \<Rightarrow> RankParity \<Rightarrow> ('k, 'v) WAVLTree \<Rightarrow> ref \<times> ('k, 'v) WAVLTree" where
  "alloc k v p t =
     (fresh t, t\<lparr>heap := (heap t)(fresh t := new_node k v p (fresh t)), fresh := Suc (fresh t)\<rparr>)"

text \<open>
  \<^verbatim>\<open>new WAVLTree(compare)\<close> in a store that holds only \<^verbatim>\<open>NIL\<close>, built by
  \<^verbatim>\<open>new WAVLNode(undefined, undefined, RankParity.One)\<close>; \<open>k0\<close> and \<open>v0\<close> stand for
  the key and value of \<^verbatim>\<open>NIL\<close>.
\<close>

definition empty_tree :: "('k \<Rightarrow> 'k \<Rightarrow> int) \<Rightarrow> 'k \<Rightarrow> 'v \<Rightarrow> ('k, 'v) WAVLTree" where
  "empty_tree cmp k0 v0 =
     \<lparr>compare = cmp, root = NIL, tsize = 0, heap = (\<lambda>_. new_node k0 v0 One NIL), fresh = Suc NIL\<rparr>"

definition validate :: "('k, 'v) WAVLTree \<Rightarrow> ref \<Rightarrow> error option" where
  "validate t node = (if removed_of t node then Some StaleCursor else None)"

definition promote :: "ref \<Rightarrow> ('k, 'v) WAVLTree \<Rightarrow> ('k, 'v) WAVLTree" where
  "promote node t = set_parity node (flip (parity_of t node)) t"

definition demote :: "ref \<Rightarrow> ('k, 'v) WAVLTree \<Rightarrow> ('k, 'v) WAVLTree" where
  "demote node t = set_parity node (flip (parity_of t node)) t"

subsection \<open>Walking the tree\<close>

text \<open>
  The loops of the program follow links until they meet \<^verbatim>\<open>NIL\<close>; on a store whose
  links form a cycle they do not return, which is the value \<open>None\<close> here.
\<close>

partial_function (option) minimum :: "('k, 'v) WAVLTree \<Rightarrow> ref \<Rightarrow> ref option" where
  "minimum t node =
     (if left_of t node \<noteq> NIL then minimum t (left_of t node) else Some node)"

declare minimum.simps [code]

partial_function (option) maximum :: "('k, 'v) WAVLTree \<Rightarrow> ref \<Rightarrow> ref option" where
  "maximum t node =
     (if right_of t node \<noteq> NIL then maximum t (right_of t node) else Some node)"

declare maximum.simps [code]

partial_function (option) predecessor_up :: "('k, 'v) WAVLTree \<Rightarrow> ref \<Rightarrow> ref \<Rightarrow> ref option" where
  "predecessor_up t node p =
     (if p \<noteq> NIL \<and> left_of t p = node then predecessor_up t p (parent_of t p) else Some p)"

declare predecessor_up.simps [code]

definition predecessor :: "('k, 'v) WAVLTree \<Rightarrow> ref \<Rightarrow> ref option" where
  "predecessor t node =
     (if left_of t node \<noteq> NIL then maximum t (left_of t node)
      else predecessor_up t node (parent_of t node))"

partial_function (option) successor_up :: "('k, 'v) WAVLTree \<Rightarrow> ref \<Rightarrow> ref \<Rightarrow> ref option" where
  "successor_up t node p =
     (if p \<noteq> NIL \<and> right_of t p = node then successor_up t p (parent_of t p) else Some p)"

declare successor_up.simps [code]

definition successor :: "('k, 'v) WAVLTree \<Rightarrow> ref \<Rightarrow> ref option" where
  "successor t node =
     (if right_of t node \<noteq> NIL then minimum t (right_of t node)
      else successor_up t node (parent_of t node))"

subsection \<open>Rotations\<close>

text \<open>
  Each rotation is the sequence of assignments of the source, every read taken from the
  store as the assignments before it left it.
\<close>

definition replace_child :: "ref \<Rightarrow> ref \<Rightarrow> ('k, 'v) WAVLTree \<Rightarrow> ('k, 'v) WAVLTree" where
  "replace_child node new t =
     (if parent_of t node = NIL then set_root new t
      else if left_of t (parent_of t node) = node then set_left (parent_of t node) new t
      else set_right (parent_of t node) new t)"

definition rotateLeft :: "('k, 'v) WAVLTree \<Rightarrow> ref \<Rightarrow> ref \<Rightarrow> ('k, 'v) WAVLTree" where
  "rotateLeft t node r =
     (let t1 = replace_child node r t;
          t2 = set_parent r (parent_of t1 node) t1;
          t3 = set_right node (left_of t2 r) t2;
          t4 = (if left_of t3 r \<noteq> NIL then set_parent (left_of t3 r) node t3 else t3);
          t5 = set_left r node t4
      in set_parent node r t5)"

definition rotateRight :: "('k, 'v) WAVLTree \<Rightarrow> ref \<Rightarrow> ref \<Rightarrow> ('k, 'v) WAVLTree" where
  "rotateRight t node l =
     (let t1 = replace_child node l t;
          t2 = set_parent l (parent_of t1 node) t1;
          t3 = set_left node (right_of t2 l) t2;
          t4 = (if right_of t3 l \<noteq> NIL then set_parent (right_of t3 l) node t3 else t3);
          t5 = set_right l node t4
      in set_parent node l t5)"

definition rotateLeftRight :: "('k, 'v) WAVLTree \<Rightarrow> ref \<Rightarrow> ref \<Rightarrow> ref \<Rightarrow> ('k, 'v) WAVLTree" where
  "rotateLeftRight t p node r =
     (let t1 = replace_child p r t;
          t2 = set_parent r (parent_of t1 p) t1;
          t3 = set_left p (right_of t2 r) t2;
          t4 = (if right_of t3 r \<noteq> NIL then set_parent (right_of t3 r) p t3 else t3);
          t5 = set_right node (left_of t4 r) t4;
          t6 = (if left_of t5 r \<noteq> NIL then set_parent (left_of t5 r) node t5 else t5);
          t7 = set_left r node t6;
          t8 = set_parent node r t7;
          t9 = set_right r p t8
      in set_parent p r t9)"

definition rotateRightLeft :: "('k, 'v) WAVLTree \<Rightarrow> ref \<Rightarrow> ref \<Rightarrow> ref \<Rightarrow> ('k, 'v) WAVLTree" where
  "rotateRightLeft t p node l =
     (let t1 = replace_child p l t;
          t2 = set_parent l (parent_of t1 p) t1;
          t3 = set_right p (left_of t2 l) t2;
          t4 = (if left_of t3 l \<noteq> NIL then set_parent (left_of t3 l) p t3 else t3);
          t5 = set_left node (right_of t4 l) t4;
          t6 = (if right_of t5 l \<noteq> NIL then set_parent (right_of t5 l) node t5 else t5);
          t7 = set_left l p t6;
          t8 = set_parent p l t7;
          t9 = set_right l node t8
      in set_parent node l t9)"

subsection \<open>Search and insertion\<close>

partial_function (option) search_from :: "('k, 'v) WAVLTree \<Rightarrow> 'k \<Rightarrow> ref \<Rightarrow> ref option" where
  "search_from t k node =
     (if node \<noteq> NIL then
        (if compare t k (key_of t node) = 0 then Some node
         else if compare t k (key_of t node) < 0 then search_from t k (left_of t node)
         else search_from t k (right_of t node))
      else Some NIL)"

declare search_from.simps [code]

definition search :: "('k, 'v) WAVLTree \<Rightarrow> 'k \<Rightarrow> ref option" where
  "search t k = search_from t k (root t)"

text \<open>\<^verbatim>\<open>replace\<close> returns the old value with the updated store.\<close>

definition replace :: "ref \<Rightarrow> 'v \<Rightarrow> ('k, 'v) WAVLTree \<Rightarrow> 'v \<times> ('k, 'v) WAVLTree" where
  "replace node v t = (val_of t node, set_val node v t)"

partial_function (option) insertFixup_loop ::
  "('k, 'v) WAVLTree \<Rightarrow> ref \<Rightarrow> ('k, 'v) WAVLTree option" where
  "insertFixup_loop t node =
     (if node \<noteq> NIL then
        (if parent_of t node = NIL \<or> parity_of t (parent_of t node) \<noteq> parity_of t node
         then Some t
         else if node = left_of t (parent_of t node) then
           (if parity_of t (parent_of t node) \<noteq> parity_of t (right_of t (parent_of t node))
            then insertFixup_loop (promote (parent_of t node) t) (parent_of t node)
            else if parity_of t node = parity_of t (right_of t node)
            then Some (demote (parent_of t node) (rotateRight t (parent_of t node) node))
            else Some (promote (right_of t node) (demote node (demote (parent_of t node)
                   (rotateLeftRight t (parent_of t node) node (right_of t node))))))
         else
           (if parity_of t (parent_of t node) \<noteq> parity_of t (left_of t (parent_of t node))
            then insertFixup_loop (promote (parent_of t node) t) (parent_of t node)
            else if parity_of t node = parity_of t (left_of t node)
            then Some (demote (parent_of t node) (rotateLeft t (parent_of t node) node))
            else Some (promote (left_of t node) (demote node (demote (parent_of t node)
                   (rotateRightLeft t (parent_of t node) node (left_of t node)))))))
      else Some t)"

declare insertFixup_loop.simps [code]

definition insertFixup :: "('k, 'v) WAVLTree \<Rightarrow> ref \<Rightarrow> ('k, 'v) WAVLTree option" where
  "insertFixup t p = insertFixup_loop (promote p t) p"

definition insertEmpty ::
  "('k, 'v) WAVLTree \<Rightarrow> ref \<Rightarrow> Branch \<Rightarrow> 'k \<Rightarrow> 'v \<Rightarrow> (ref \<times> ('k, 'v) WAVLTree) option" where
  "insertEmpty t p branch k v =
     (let (node, t1) = alloc k v Zero t;
          t2 = set_right node NIL (set_left node NIL (set_parent node p t1));
          t3 = (if p = NIL then Some (set_root node t2)
                else if branch = Left then
                  (let t' = set_left p node t2
                   in if right_of t' p = NIL then insertFixup t' p else Some t')
                else
                  (let t' = set_right p node t2
                   in if left_of t' p = NIL then insertFixup t' p else Some t'))
      in case t3 of None \<Rightarrow> None
         | Some t4 \<Rightarrow> Some (node, t4\<lparr>tsize := tsize t4 + 1\<rparr>))"

text \<open>
  The descent of \<^verbatim>\<open>insert\<close>; it returns the old value when the key is present and
  \<^verbatim>\<open>undefined\<close> (\<open>None\<close>) after a new node has been inserted.
\<close>

partial_function (option) insert_from ::
  "('k, 'v) WAVLTree \<Rightarrow> 'k \<Rightarrow> 'v \<Rightarrow> ref \<Rightarrow> Branch \<Rightarrow> ref \<Rightarrow> ('v option \<times> ('k, 'v) WAVLTree) option" where
  "insert_from t k v p branch node =
     (if node \<noteq> NIL then
        (if compare t k (key_of t node) = 0 then
           (case replace node v t of (old, t') \<Rightarrow> Some (Some old, t'))
         else if compare t k (key_of t node) < 0 then insert_from t k v node Left (left_of t node)
         else insert_from t k v node Right (right_of t node))
      else
        (case insertEmpty t p branch k v of None \<Rightarrow> None
         | Some (n, t') \<Rightarrow> Some (None, t')))"

declare insert_from.simps [code]

definition insert_tree ::
  "('k, 'v) WAVLTree \<Rightarrow> 'k \<Rightarrow> 'v \<Rightarrow> ('v option \<times> ('k, 'v) WAVLTree) option" where
  "insert_tree t k v = insert_from t k v NIL Left (root t)"

subsection \<open>Removal\<close>

partial_function (option) removeFixup_loop ::
  "('k, 'v) WAVLTree \<Rightarrow> ref \<Rightarrow> ref \<Rightarrow> ('k, 'v) WAVLTree option" where
  "removeFixup_loop t p node =
     (if p \<noteq> NIL \<and> parity_of t p \<noteq> parity_of t node then
        (if left_of t p = node then
           (if parity_of t p = parity_of t (right_of t p)
            then removeFixup_loop (demote p t) (parent_of (demote p t) p) p
            else if parity_of t (right_of t p) = parity_of t (right_of t (right_of t p)) then
              (if parity_of t (right_of t p) = parity_of t (left_of t (right_of t p))
               then removeFixup_loop (demote p (demote (right_of t p) t))
                      (parent_of (demote p (demote (right_of t p) t)) p) p
               else Some (demote (right_of t p)
                      (rotateRightLeft t p (right_of t p) (left_of t (right_of t p)))))
            else
              Some (if left_of (promote (right_of t p) (rotateLeft t p (right_of t p))) p \<noteq> NIL
                      \<or> right_of (promote (right_of t p) (rotateLeft t p (right_of t p))) p \<noteq> NIL
                    then demote p (promote (right_of t p) (rotateLeft t p (right_of t p)))
                    else promote (right_of t p) (rotateLeft t p (right_of t p))))
         else
           (if parity_of t p = parity_of t (left_of t p)
            then removeFixup_loop (demote p t) (parent_of (demote p t) p) p
            else if parity_of t (left_of t p) = parity_of t (left_of t (left_of t p)) then
              (if parity_of t (left_of t p) = parity_of t (right_of t (left_of t p))
               then removeFixup_loop (demote p (demote (left_of t p) t))
                      (parent_of (demote p (demote (left_of t p) t)) p) p
               else Some (demote (left_of t p)
                      (rotateLeftRight t p (left_of t p) (right_of t (left_of t p)))))
            else
              Some (if left_of (promote (left_of t p) (rotateRight t p (left_of t p))) p \<noteq> NIL
                      \<or> right_of (promote (left_of t p) (rotateRight t p (left_of t p))) p \<noteq> NIL
                    then demote p (promote (left_of t p) (rotateRight t p (left_of t p)))
                    else promote (left_of t p) (rotateRight t p (left_of t p)))))
      else Some t)"

declare removeFixup_loop.simps [code]

definition removeFixup ::
  "('k, 'v) WAVLTree \<Rightarrow> ref \<Rightarrow> ref \<Rightarrow> ('k, 'v) WAVLTree option" where
  "removeFixup t p node =
     (if node = NIL \<and> parity_of t p = One then
        (if left_of t p = node then
           (if right_of t p \<noteq> NIL then Some t
            else removeFixup_loop (demote p t) (parent_of (demote p t) p) p)
         else
           (if left_of t p \<noteq> NIL then Some t
            else removeFixup_loop (demote p t) (parent_of (demote p t) p) p))
      else removeFixup_loop t p node)"

text \<open>
  The branch of \<^verbatim>\<open>remove\<close> for a node with two children: the predecessor \<open>m\<close> takes the
  place of \<open>node\<close>.  The result is the store before the call of \<^verbatim>\<open>removeFixup\<close> with the
  two arguments of that call.
\<close>

definition remove_swap ::
  "('k, 'v) WAVLTree \<Rightarrow> ref \<Rightarrow> ref \<Rightarrow> ('k, 'v) WAVLTree \<times> ref \<times> ref" where
  "remove_swap t node m =
     (let p = parent_of t m;
          child = left_of t m;
          t1 = set_parity m (parity_of t node) t;
          t2 = set_right m (right_of t1 node) t1;
          t3 = set_parent (right_of t2 node) m t2;
          (t4, p') =
            (if p = node then (t3, m)
             else
               (let u1 = set_left m (left_of t3 node) t3;
                    u2 = set_parent (left_of u1 node) m u1;
                    u3 = set_right p child u2;
                    u4 = (if child \<noteq> NIL then set_parent child p u3 else u3)
                in (u4, p)));
          t5 = set_parent m (parent_of t4 node) t4;
          t6 = (if parent_of t5 node = NIL then set_root m t5
                else if left_of t5 (parent_of t5 node) = node
                then set_left (parent_of t5 node) m t5
                else set_right (parent_of t5 node) m t5)
      in (t6, p', child))"

text \<open>
  The tail of \<^verbatim>\<open>remove\<close> for a node with at most one child: \<open>child\<close> takes the place
  of \<open>node\<close>.
\<close>

definition remove_splice ::
  "('k, 'v) WAVLTree \<Rightarrow> ref \<Rightarrow> ref \<Rightarrow> (ref \<times> ('k, 'v) WAVLTree) option" where
  "remove_splice t node child =
     (let p = parent_of t node;
          t1 = (if child \<noteq> NIL then set_parent child p t else t)
      in if p = NIL then Some (node, set_root child t1)
         else
           (case removeFixup
                   (if left_of t1 p = node then set_left p child t1 else set_right p child t1)
                   p child of
              None \<Rightarrow> None
            | Some t2 \<Rightarrow> Some (node, t2)))"

definition remove ::
  "('k, 'v) WAVLTree \<Rightarrow> ref \<Rightarrow> (ref \<times> ('k, 'v) WAVLTree) option" where
  "remove t node =
     (let t0 = set_removed node True (t\<lparr>tsize := tsize t - 1\<rparr>)
      in if left_of t0 node = NIL then remove_splice t0 node (right_of t0 node)
         else if right_of t0 node = NIL then remove_splice t0 node (left_of t0 node)
         else
           (case maximum t0 (left_of t0 node) of None \<Rightarrow> None
            | Some m \<Rightarrow>
               (case remove_swap t0 node m of (t1, p, child) \<Rightarrow>
                  (case removeFixup t1 p child of None \<Rightarrow> None
                   | Some t2 \<Rightarrow> Some (node, t2)))))"

definition clear :: "('k, 'v) WAVLTree \<Rightarrow> ('k, 'v) WAVLTree" where
  "clear t = t\<lparr>root := NIL, tsize := 0\<rparr>"

section \<open>Entries\<close>

text \<open>
  The two classes \<^verbatim>\<open>Occupied\<close> and \<^verbatim>\<open>Vacant\<close> behind an entry.  An occupied entry
  holds a node; a vacant one holds the node under which a new node would be attached
  (\<^verbatim>\<open>NIL\<close> in an empty tree), the branch, and the key it was looked up with
  (\<^verbatim>\<open>undefined\<close>, here \<open>None\<close>, when it was reached by \<^verbatim>\<open>prev\<close>, \<^verbatim>\<open>next\<close>,
  \<^verbatim>\<open>first\<close> or \<^verbatim>\<open>last\<close>).
\<close>

datatype 'k Inner = Occupied ref | Vacant ref Branch "'k option"

fun node_of :: "'k Inner \<Rightarrow> ref" where
  "node_of (Occupied n) = n"
| "node_of (Vacant n b k) = n"

fun isEmpty_inner :: "'k Inner \<Rightarrow> bool" where
  "isEmpty_inner (Occupied n) = False"
| "isEmpty_inner (Vacant n b k) = True"

fun key_inner :: "('k, 'v) WAVLTree \<Rightarrow> 'k Inner \<Rightarrow> 'k option" where
  "key_inner t (Occupied n) = Some (key_of t n)"
| "key_inner t (Vacant n b k) = k"

fun value_inner :: "('k, 'v) WAVLTree \<Rightarrow> 'k Inner \<Rightarrow> 'v option" where
  "value_inner t (Occupied n) = Some (val_of t n)"
| "value_inner t (Vacant n b k) = None"

fun entry_inner :: "('k, 'v) WAVLTree \<Rightarrow> 'k Inner \<Rightarrow> ('k \<times> 'v) option" where
  "entry_inner t (Occupied n) = Some (key_of t n, val_of t n)"
| "entry_inner t (Vacant n b k) = None"

definition validate_inner :: "('k, 'v) WAVLTree \<Rightarrow> 'k Inner \<Rightarrow> error option" where
  "validate_inner t i = validate t (node_of i)"

definition validateKey :: "('k, 'v) WAVLTree \<Rightarrow> ref \<Rightarrow> 'k \<Rightarrow> ref \<Rightarrow> error option" where
  "validateKey t prev k nxt =
     (if prev \<noteq> NIL \<and> compare t (key_of t prev) k \<ge> 0 then Some KeyOrderViolation
      else if nxt \<noteq> NIL \<and> compare t k (key_of t nxt) \<ge> 0 then Some KeyOrderViolation
      else None)"

fun prev_inner :: "('k, 'v) WAVLTree \<Rightarrow> 'k Inner \<Rightarrow> 'k Inner option" where
  "prev_inner t (Occupied n) =
     (if left_of t n \<noteq> NIL then map_option Occupied (maximum t (left_of t n))
      else
        (case predecessor t n of None \<Rightarrow> None
         | Some p \<Rightarrow> Some (if p = NIL then Vacant n Left None else Occupied p)))"
| "prev_inner t (Vacant n b k) =
     (if n = NIL then Some (Vacant NIL Left None)
      else if b = Left then
        (case predecessor t n of None \<Rightarrow> None
         | Some p \<Rightarrow> Some (if p = NIL then Vacant n b k else Occupied p))
      else Some (Occupied n))"

fun next_inner :: "('k, 'v) WAVLTree \<Rightarrow> 'k Inner \<Rightarrow> 'k Inner option" where
  "next_inner t (Occupied n) =
     (if right_of t n \<noteq> NIL then map_option Occupied (minimum t (right_of t n))
      else
        (case successor t n of None \<Rightarrow> None
         | Some p \<Rightarrow> Some (if p = NIL then Vacant n Right None else Occupied p)))"
| "next_inner t (Vacant n b k) =
     (if n = NIL then Some (Vacant NIL Right None)
      else if b = Right then
        (case successor t n of None \<Rightarrow> None
         | Some p \<Rightarrow> Some (if p = NIL then Vacant n b k else Occupied p))
      else Some (Occupied n))"

text \<open>
  The inserting methods return the error raised, or the new occupied entry, together with
  the tree as the call left it.
\<close>

definition insert_checked ::
  "('k, 'v) WAVLTree \<Rightarrow> ref \<Rightarrow> ref \<Rightarrow> ref \<Rightarrow> Branch \<Rightarrow> 'k \<Rightarrow> 'v \<Rightarrow>
     ((error + 'k Inner) \<times> ('k, 'v) WAVLTree) option" where
  "insert_checked t prev nxt p branch k v =
     (case validateKey t prev k nxt of
        Some e \<Rightarrow> Some (Inl e, t)
      | None \<Rightarrow>
         (case insertEmpty t p branch k v of None \<Rightarrow> None
          | Some (node, t') \<Rightarrow> Some (Inr (Occupied node), t')))"

fun insertBefore_inner ::
  "('k, 'v) WAVLTree \<Rightarrow> 'k Inner \<Rightarrow> 'k \<Rightarrow> 'v \<Rightarrow> ((error + 'k Inner) \<times> ('k, 'v) WAVLTree) option" where
  "insertBefore_inner t (Occupied n) k v =
     (case predecessor t n of None \<Rightarrow> None
      | Some prev \<Rightarrow>
         (if left_of t n = NIL then insert_checked t prev n n Left k v
          else insert_checked t prev n prev Right k v))"
| "insertBefore_inner t (Vacant n b kh) k v =
     (if b = Left then
        (case predecessor t n of None \<Rightarrow> None
         | Some prev \<Rightarrow> insert_checked t prev n n b k v)
      else
        (case successor t n of None \<Rightarrow> None
         | Some nxt \<Rightarrow> insert_checked t n nxt n b k v))"

fun insertAfter_inner ::
  "('k, 'v) WAVLTree \<Rightarrow> 'k Inner \<Rightarrow> 'k \<Rightarrow> 'v \<Rightarrow> ((error + 'k Inner) \<times> ('k, 'v) WAVLTree) option" where
  "insertAfter_inner t (Occupied n) k v =
     (case successor t n of None \<Rightarrow> None
      | Some nxt \<Rightarrow>
         (if right_of t n = NIL then insert_checked t n nxt n Right k v
          else insert_checked t n nxt nxt Left k v))"
| "insertAfter_inner t (Vacant n b kh) k v =
     (if b = Left then
        (case predecessor t n of None \<Rightarrow> None
         | Some prev \<Rightarrow> insert_checked t prev n n b k v)
      else
        (case successor t n of None \<Rightarrow> None
         | Some nxt \<Rightarrow> insert_checked t n nxt n b k v))"

fun delete_inner :: "('k, 'v) WAVLTree \<Rightarrow> 'k Inner \<Rightarrow> (bool \<times> ('k, 'v) WAVLTree) option" where
  "delete_inner t (Occupied n) =
     (case remove t n of None \<Rightarrow> None | Some (node, t') \<Rightarrow> Some (True, t'))"
| "delete_inner t (Vacant n b k) = Some (False, t)"

fun remove_inner ::
  "('k, 'v) WAVLTree \<Rightarrow> 'k Inner \<Rightarrow> (('k \<times> 'v) option \<times> ('k, 'v) WAVLTree) option" where
  "remove_inner t (Occupied n) =
     (case remove t n of None \<Rightarrow> None
      | Some (node, t') \<Rightarrow> Some (Some (key_of t' node, val_of t' node), t'))"
| "remove_inner t (Vacant n b k) = Some (None, t)"

subsection \<open>The entry objects handed to the caller\<close>

text \<open>
  A \<^verbatim>\<open>WAVLMapEntry\<close> wraps an inner entry in a field that its methods may
  reassign.  A method that can reassign it returns the entry object as the call left it
  next to its result.  Every method validates first.
\<close>

datatype 'k WAVLMapEntry = WAVLMapEntry (inner: "'k Inner")

definition isEmpty_entry :: "'k WAVLMapEntry \<Rightarrow> bool" where
  "isEmpty_entry e = isEmpty_inner (inner e)"

definition key_entry :: "('k, 'v) WAVLTree \<Rightarrow> 'k WAVLMapEntry \<Rightarrow> 'k option" where
  "key_entry t e = key_inner t (inner e)"

definition value_entry :: "('k, 'v) WAVLTree \<Rightarrow> 'k WAVLMapEntry \<Rightarrow> 'v option" where
  "value_entry t e = value_inner t (inner e)"

definition entry_entry :: "('k, 'v) WAVLTree \<Rightarrow> 'k WAVLMapEntry \<Rightarrow> ('k \<times> 'v) option" where
  "entry_entry t e = entry_inner t (inner e)"

definition validate_entry :: "('k, 'v) WAVLTree \<Rightarrow> 'k WAVLMapEntry \<Rightarrow> error option" where
  "validate_entry t e = validate_inner t (inner e)"

definition prev_entry ::
  "('k, 'v) WAVLTree \<Rightarrow> 'k WAVLMapEntry \<Rightarrow> (error + 'k WAVLMapEntry) option" where
  "prev_entry t e =
     (case validate_entry t e of
        Some err \<Rightarrow> Some (Inl err)
      | None \<Rightarrow> map_option (\<lambda>i. Inr (WAVLMapEntry i)) (prev_inner t (inner e)))"

definition next_entry ::
  "('k, 'v) WAVLTree \<Rightarrow> 'k WAVLMapEntry \<Rightarrow> (error + 'k WAVLMapEntry) option" where
  "next_entry t e =
     (case validate_entry t e of
        Some err \<Rightarrow> Some (Inl err)
      | None \<Rightarrow> map_option (\<lambda>i. Inr (WAVLMapEntry i)) (next_inner t (inner e)))"

text \<open>
  \<^verbatim>\<open>insertBefore\<close> and \<^verbatim>\<open>insertAfter\<close>: the result, the receiver after the call
  and the tree after the call.
\<close>

definition morph ::
  "'k WAVLMapEntry \<Rightarrow> ((error + 'k Inner) \<times> ('k, 'v) WAVLTree) \<Rightarrow>
     (error + 'k WAVLMapEntry) \<times> 'k WAVLMapEntry \<times> ('k, 'v) WAVLTree" where
  "morph e r =
     (case r of
        (Inl err, t') \<Rightarrow> (Inl err, e, t')
      | (Inr i, t') \<Rightarrow>
          (Inr (WAVLMapEntry i), (if isEmpty_inner (inner e) then WAVLMapEntry i else e), t'))"

definition insertBefore_entry ::
  "('k, 'v) WAVLTree \<Rightarrow> 'k WAVLMapEntry \<Rightarrow> 'k \<Rightarrow> 'v \<Rightarrow>
     ((error + 'k WAVLMapEntry) \<times> 'k WAVLMapEntry \<times> ('k, 'v) WAVLTree) option" where
  "insertBefore_entry t e k v =
     (case validate_entry t e of
        Some err \<Rightarrow> Some (Inl err, e, t)
      | None \<Rightarrow> map_option (morph e) (insertBefore_inner t (inner e) k v))"

definition insertAfter_entry ::
  "('k, 'v) WAVLTree \<Rightarrow> 'k WAVLMapEntry \<Rightarrow> 'k \<Rightarrow> 'v \<Rightarrow>
     ((error + 'k WAVLMapEntry) \<times> 'k WAVLMapEntry \<times> ('k, 'v) WAVLTree) option" where
  "insertAfter_entry t e k v =
     (case validate_entry t e of
        Some err \<Rightarrow> Some (Inl err, e, t)
      | None \<Rightarrow> map_option (morph e) (insertAfter_inner t (inner e) k v))"

definition delete_entry ::
  "('k, 'v) WAVLTree \<Rightarrow> 'k WAVLMapEntry \<Rightarrow> ((error + bool) \<times> ('k, 'v) WAVLTree) option" where
  "delete_entry t e =
     (case validate_entry t e of
        Some err \<Rightarrow> Some (Inl err, t)
      | None \<Rightarrow> map_option (\<lambda>(b, t'). (Inr b, t')) (delete_inner t (inner e)))"

definition remove_entry ::
  "('k, 'v) WAVLTree \<Rightarrow> 'k WAVLMapEntry \<Rightarrow>
     ((error + ('k \<times> 'v) option) \<times> ('k, 'v) WAVLTree) option" where
  "remove_entry t e =
     (case validate_entry t e of
        Some err \<Rightarrow> Some (Inl err, t)
      | None \<Rightarrow> map_option (\<lambda>(r, t'). (Inr r, t')) (remove_inner t (inner e)))"

text \<open>
  \<^verbatim>\<open>WAVLMapEntryWithKey.insert\<close>.  The inner entry of a \<^verbatim>\<open>WAVLMapEntryWithKey\<close> is
  \<^verbatim>\<open>Occupied<K, V> | Vacant<K, V>\<close>: when it is vacant it carries the key it was looked
  up with, so the method has no case for a vacant entry without a key.
\<close>

fun insert_entry ::
  "('k, 'v) WAVLTree \<Rightarrow> 'k WAVLMapEntry \<Rightarrow> 'v \<Rightarrow>
     ((error + 'v option) \<times> 'k WAVLMapEntry \<times> ('k, 'v) WAVLTree) option" where
  "insert_entry t (WAVLMapEntry (Occupied n)) v =
     (case validate t n of
        Some err \<Rightarrow> Some (Inl err, WAVLMapEntry (Occupied n), t)
      | None \<Rightarrow> (case replace n v t of (old, t') \<Rightarrow> Some (Inr (Some old), WAVLMapEntry (Occupied n), t')))"
| "insert_entry t (WAVLMapEntry (Vacant n b (Some k))) v =
     (case validate t n of
        Some err \<Rightarrow> Some (Inl err, WAVLMapEntry (Vacant n b (Some k)), t)
      | None \<Rightarrow>
         (case insertEmpty t n b k v of None \<Rightarrow> None
          | Some (node, t') \<Rightarrow> Some (Inr None, WAVLMapEntry (Occupied node), t')))"
| "insert_entry t (WAVLMapEntry (Vacant n b None)) v = None"

text \<open>The entries that can be a \<^verbatim>\<open>WAVLMapEntryWithKey\<close>.\<close>

definition keyed :: "'k WAVLMapEntry \<Rightarrow> bool" where
  "keyed e = (case inner e of Vacant n b None \<Rightarrow> False | _ \<Rightarrow> True)"

text \<open>\<^verbatim>\<open>set\<close> calls \<^verbatim>\<open>insert\<close> and returns the receiver.\<close>

definition set_entry ::
  "('k, 'v) WAVLTree \<Rightarrow> 'k WAVLMapEntry \<Rightarrow> 'v \<Rightarrow>
     ((error + 'k WAVLMapEntry) \<times> 'k WAVLMapEntry \<times> ('k, 'v) WAVLTree) option" where
  "set_entry t e v =
     map_option (\<lambda>(r, e', t'). ((case r of Inl err \<Rightarrow> Inl err | Inr old \<Rightarrow> Inr e'), e', t'))
       (insert_entry t e v)"

partial_function (option) searchEntry_from ::
  "('k, 'v) WAVLTree \<Rightarrow> 'k \<Rightarrow> ref \<Rightarrow> ref \<Rightarrow> Branch \<Rightarrow> (ref \<times> ref \<times> Branch) option" where
  "searchEntry_from t k p node branch =
     (if node \<noteq> NIL then
        (if compare t k (key_of t node) = 0 then Some (node, p, branch)
         else if compare t k (key_of t node) < 0
         then searchEntry_from t k node (left_of t node) Left
         else searchEntry_from t k node (right_of t node) Right)
      else Some (node, p, branch))"

declare searchEntry_from.simps [code]

definition searchEntry :: "('k, 'v) WAVLTree \<Rightarrow> 'k \<Rightarrow> (ref \<times> ref \<times> Branch) option" where
  "searchEntry t k = searchEntry_from t k NIL (root t) Left"

definition entry :: "('k, 'v) WAVLTree \<Rightarrow> 'k \<Rightarrow> 'k Inner option" where
  "entry t k =
     (case searchEntry t k of None \<Rightarrow> None
      | Some (node, p, branch) \<Rightarrow>
          Some (if node = NIL then Vacant p branch (Some k) else Occupied node))"

section \<open>Ranges\<close>

datatype Kind = Default | Exclusive | Before | After | Removed

definition isEmpty_kind :: "Kind \<Rightarrow> bool" where
  "isEmpty_kind k = (k \<noteq> Default)"

text \<open>
  \<^verbatim>\<open>searchRange\<close>.  The variable \<^verbatim>\<open>prev\<close> of the source stays \<^verbatim>\<open>undefined\<close> when
  no start key is given; it is an optional reference here.  The lower end is found first;
  \<open>None\<close> as its result stands for the early return of \<^verbatim>\<open>[NIL, NIL, Kind.After]\<close>.
\<close>

definition searchLower ::
  "('k, 'v) WAVLTree \<Rightarrow> 'k option \<Rightarrow> bool \<Rightarrow> (ref \<times> ref option) option option" where
  "searchLower t start exclusive =
     (case start of
        None \<Rightarrow> map_option (\<lambda>m. Some (m, None)) (minimum t (root t))
      | Some a \<Rightarrow>
         (case searchEntry t a of None \<Rightarrow> None
          | Some (node, p, branch) \<Rightarrow>
             (if node \<noteq> NIL then
                (if exclusive then map_option (\<lambda>q. Some (node, Some q)) (predecessor t node)
                 else Some (Some (node, Some NIL)))
              else if branch = Left then
                map_option (\<lambda>q. Some (p, Some q)) (predecessor t p)
              else
                map_option (\<lambda>l. if l = NIL then None else Some (l, Some p)) (successor t p))))"

definition searchUpper ::
  "('k, 'v) WAVLTree \<Rightarrow> 'k option \<Rightarrow> bool \<Rightarrow> ref \<Rightarrow> ref option \<Rightarrow> (ref \<times> ref \<times> Kind) option" where
  "searchUpper t end exclusive lower prev =
     (case end of
        None \<Rightarrow> map_option (\<lambda>m. (lower, m, Default)) (maximum t (root t))
      | Some b \<Rightarrow>
         (case searchEntry t b of None \<Rightarrow> None
          | Some (node, p, branch) \<Rightarrow>
             (if node \<noteq> NIL then
                (if exclusive then
                   (if lower = node then Some (node, node, Exclusive)
                    else map_option (\<lambda>u. (lower, u, Default)) (predecessor t node))
                 else Some (lower, node, Default))
              else
                (case (if branch = Right then Some p else predecessor t p) of None \<Rightarrow> None
                 | Some upper \<Rightarrow>
                    Some (if branch \<noteq> Right \<and> upper = NIL then (NIL, NIL, Before)
                          else if prev = Some upper then (upper, lower, Exclusive)
                          else (lower, upper, Default))))))"

definition searchRange ::
  "('k, 'v) WAVLTree \<Rightarrow> 'k option \<Rightarrow> 'k option \<Rightarrow> bool \<Rightarrow>
     (error + ref \<times> ref \<times> Kind) option" where
  "searchRange t start end exclusive =
     (if (case (start, end) of (Some a, Some b) \<Rightarrow> compare t a b > 0 | _ \<Rightarrow> False)
      then Some (Inl InvalidRange)
      else if root t = NIL then Some (Inr (NIL, NIL, Before))
      else
        (case searchLower t start exclusive of None \<Rightarrow> None
         | Some None \<Rightarrow> Some (Inr (NIL, NIL, After))
         | Some (Some (lower, prev)) \<Rightarrow>
             map_option Inr (searchUpper t end exclusive lower prev)))"

record WAVLMapRange =
  lower :: ref
  upper :: ref
  kind :: Kind

definition range_tree ::
  "('k, 'v) WAVLTree \<Rightarrow> 'k option \<Rightarrow> 'k option \<Rightarrow> bool \<Rightarrow> (error + WAVLMapRange) option" where
  "range_tree t start end exclusive =
     map_option (map_sum id (\<lambda>(l, u, k). \<lparr>lower = l, upper = u, kind = k\<rparr>))
       (searchRange t start end exclusive)"

definition isEmpty_range :: "WAVLMapRange \<Rightarrow> bool" where
  "isEmpty_range r = isEmpty_kind (kind r)"

text \<open>
  \<^verbatim>\<open>first\<close> and \<^verbatim>\<open>last\<close> of a range validate the bound before they look at the kind.
\<close>

definition first_range ::
  "('k, 'v) WAVLTree \<Rightarrow> WAVLMapRange \<Rightarrow> (error + 'k WAVLMapEntry) option" where
  "first_range t r =
     (case validate t (lower r) of
        Some err \<Rightarrow> Some (Inl err)
      | None \<Rightarrow>
         (case kind r of
            Default \<Rightarrow> Some (Inr (WAVLMapEntry (Occupied (lower r))))
          | Exclusive \<Rightarrow>
              (if right_of t (lower r) = NIL
               then Some (Inr (WAVLMapEntry (Vacant (lower r) Right None)))
               else map_option (\<lambda>n. Inr (WAVLMapEntry (Vacant n Left None)))
                      (minimum t (right_of t (lower r))))
          | Before \<Rightarrow> map_option (\<lambda>n. Inr (WAVLMapEntry (Vacant n Left None))) (minimum t (root t))
          | After \<Rightarrow> map_option (\<lambda>n. Inr (WAVLMapEntry (Vacant n Right None))) (maximum t (root t))
          | Removed \<Rightarrow> Some (Inl ConsumedRange)))"

definition last_range ::
  "('k, 'v) WAVLTree \<Rightarrow> WAVLMapRange \<Rightarrow> (error + 'k WAVLMapEntry) option" where
  "last_range t r =
     (case validate t (upper r) of
        Some err \<Rightarrow> Some (Inl err)
      | None \<Rightarrow>
         (case kind r of
            Default \<Rightarrow> Some (Inr (WAVLMapEntry (Occupied (upper r))))
          | Exclusive \<Rightarrow>
              (if left_of t (upper r) = NIL
               then Some (Inr (WAVLMapEntry (Vacant (upper r) Left None)))
               else map_option (\<lambda>n. Inr (WAVLMapEntry (Vacant n Right None)))
                      (maximum t (left_of t (upper r))))
          | Before \<Rightarrow> map_option (\<lambda>n. Inr (WAVLMapEntry (Vacant n Left None))) (minimum t (root t))
          | After \<Rightarrow> map_option (\<lambda>n. Inr (WAVLMapEntry (Vacant n Right None))) (maximum t (root t))
          | Removed \<Rightarrow> Some (Inl ConsumedRange)))"

text \<open>
  The loop of \<^verbatim>\<open>forEachNode\<close> with the three callbacks it is used with: counting,
  removing and counting, collecting and removing.  The next node is fetched before the
  callback runs.
\<close>

partial_function (option) count_loop ::
  "('k, 'v) WAVLTree \<Rightarrow> ref \<Rightarrow> ref \<Rightarrow> int \<Rightarrow> int option" where
  "count_loop t up node c =
     (if node \<noteq> NIL then
        Option.bind (if node = up then Some NIL else successor t node)
          (\<lambda>nxt. count_loop t up nxt (c + 1))
      else Some c)"

declare count_loop.simps [code]

partial_function (option) delete_loop ::
  "('k, 'v) WAVLTree \<Rightarrow> ref \<Rightarrow> ref \<Rightarrow> int \<Rightarrow> (int \<times> ('k, 'v) WAVLTree) option" where
  "delete_loop t up node c =
     (if node \<noteq> NIL then
        Option.bind (if node = up then Some NIL else successor t node)
          (\<lambda>nxt. Option.bind (remove t node)
             (\<lambda>r. delete_loop (snd r) up nxt (c + 1)))
      else Some (c, t))"

declare delete_loop.simps [code]

partial_function (option) remove_loop ::
  "('k, 'v) WAVLTree \<Rightarrow> ref \<Rightarrow> ref \<Rightarrow> ('k \<times> 'v) list \<Rightarrow>
     (('k \<times> 'v) list \<times> ('k, 'v) WAVLTree) option" where
  "remove_loop t up node acc =
     (if node \<noteq> NIL then
        Option.bind (if node = up then Some NIL else successor t node)
          (\<lambda>nxt. Option.bind (remove t node)
             (\<lambda>r. remove_loop (snd r) up nxt (acc @ [(key_of t node, val_of t node)])))
      else Some (acc, t))"

declare remove_loop.simps [code]

definition count_range :: "('k, 'v) WAVLTree \<Rightarrow> WAVLMapRange \<Rightarrow> (error + int) option" where
  "count_range t r =
     (if kind r = Removed then Some (Inr 0)
      else if isEmpty_kind (kind r) then Some (Inr 0)
      else
        (case validate t (lower r) of Some err \<Rightarrow> Some (Inl err)
         | None \<Rightarrow>
            (case validate t (upper r) of Some err \<Rightarrow> Some (Inl err)
             | None \<Rightarrow> map_option Inr (count_loop t (upper r) (lower r) 0))))"

text \<open>
  \<^verbatim>\<open>delete\<close> and \<^verbatim>\<open>remove\<close> of a range: the result, the range object after the call
  and the tree after the call.
\<close>

definition delete_range ::
  "('k, 'v) WAVLTree \<Rightarrow> WAVLMapRange \<Rightarrow>
     ((error + int) \<times> WAVLMapRange \<times> ('k, 'v) WAVLTree) option" where
  "delete_range t r =
     (if kind r = Removed then Some (Inr 0, r, t)
      else if isEmpty_kind (kind r) then Some (Inr 0, r\<lparr>kind := Removed\<rparr>, t)
      else
        (case validate t (lower r) of Some err \<Rightarrow> Some (Inl err, r\<lparr>kind := Removed\<rparr>, t)
         | None \<Rightarrow>
            (case validate t (upper r) of Some err \<Rightarrow> Some (Inl err, r\<lparr>kind := Removed\<rparr>, t)
             | None \<Rightarrow>
                map_option (\<lambda>(c, t'). (Inr c, r\<lparr>kind := Removed\<rparr>, t'))
                  (delete_loop t (upper r) (lower r) 0))))"

definition remove_range ::
  "('k, 'v) WAVLTree \<Rightarrow> WAVLMapRange \<Rightarrow>
     ((error + ('k \<times> 'v) list) \<times> WAVLMapRange \<times> ('k, 'v) WAVLTree) option" where
  "remove_range t r =
     (if kind r = Removed then Some (Inr [], r, t)
      else if isEmpty_kind (kind r) then Some (Inr [], r\<lparr>kind := Removed\<rparr>, t)
      else
        (case validate t (lower r) of Some err \<Rightarrow> Some (Inl err, r\<lparr>kind := Removed\<rparr>, t)
         | None \<Rightarrow>
            (case validate t (upper r) of Some err \<Rightarrow> Some (Inl err, r\<lparr>kind := Removed\<rparr>, t)
             | None \<Rightarrow>
                map_option (\<lambda>(xs, t'). (Inr xs, r\<lparr>kind := Removed\<rparr>, t'))
                  (remove_loop t (upper r) (lower r) []))))"

text \<open>The generators \<^verbatim>\<open>inorder\<close> and \<^verbatim>\<open>inorderReverse\<close> of a range, run to their end.\<close>

partial_function (option) walk_up_to :: "('k, 'v) WAVLTree \<Rightarrow> ref \<Rightarrow> ref \<Rightarrow> ref list option" where
  "walk_up_to t up node =
     (if node \<noteq> NIL then
        (if node = up then Some [node]
         else Option.bind (successor t node)
                (\<lambda>nxt. Option.bind (walk_up_to t up nxt) (\<lambda>ns. Some (node # ns))))
      else Some [])"

declare walk_up_to.simps [code]

partial_function (option) walk_down_to :: "('k, 'v) WAVLTree \<Rightarrow> ref \<Rightarrow> ref \<Rightarrow> ref list option" where
  "walk_down_to t lo node =
     (if node \<noteq> NIL then
        (if node = lo then Some [node]
         else Option.bind (predecessor t node)
                (\<lambda>nxt. Option.bind (walk_down_to t lo nxt) (\<lambda>ns. Some (node # ns))))
      else Some [])"

declare walk_down_to.simps [code]

definition inorder_range :: "('k, 'v) WAVLTree \<Rightarrow> WAVLMapRange \<Rightarrow> (error + ref list) option" where
  "inorder_range t r =
     (if isEmpty_kind (kind r) then Some (Inr [])
      else
        (case validate t (lower r) of Some err \<Rightarrow> Some (Inl err)
         | None \<Rightarrow>
            (case validate t (upper r) of Some err \<Rightarrow> Some (Inl err)
             | None \<Rightarrow> map_option Inr (walk_up_to t (upper r) (lower r)))))"

definition inorderReverse_range ::
  "('k, 'v) WAVLTree \<Rightarrow> WAVLMapRange \<Rightarrow> (error + ref list) option" where
  "inorderReverse_range t r =
     (if isEmpty_kind (kind r) then Some (Inr [])
      else
        (case validate t (lower r) of Some err \<Rightarrow> Some (Inl err)
         | None \<Rightarrow>
            (case validate t (upper r) of Some err \<Rightarrow> Some (Inl err)
             | None \<Rightarrow> map_option Inr (walk_down_to t (lower r) (upper r)))))"

definition keys_range :: "('k, 'v) WAVLTree \<Rightarrow> WAVLMapRange \<Rightarrow> (error + 'k list) option" where
  "keys_range t r = map_option (map_sum id (map (key_of t))) (inorder_range t r)"

definition values_range :: "('k, 'v) WAVLTree \<Rightarrow> WAVLMapRange \<Rightarrow> (error + 'v list) option" where
  "values_range t r = map_option (map_sum id (map (val_of t))) (inorder_range t r)"

definition entries_range ::
  "('k, 'v) WAVLTree \<Rightarrow> WAVLMapRange \<Rightarrow> (error + ('k \<times> 'v) list) option" where
  "entries_range t r =
     map_option (map_sum id (map (\<lambda>n. (key_of t n, val_of t n)))) (inorder_range t r)"

definition entriesReverse_range ::
  "('k, 'v) WAVLTree \<Rightarrow> WAVLMapRange \<Rightarrow> (error + ('k \<times> 'v) list) option" where
  "entriesReverse_range t r =
     map_option (map_sum id (map (\<lambda>n. (key_of t n, val_of t n)))) (inorderReverse_range t r)"

section \<open>The map\<close>

text \<open>
  A \<^verbatim>\<open>WAVLMap\<close> owns one tree; its methods are the functions above applied to that
  tree.
\<close>

definition isEmpty_map :: "('k, 'v) WAVLTree \<Rightarrow> bool" where
  "isEmpty_map t = (root t = NIL)"

definition has :: "('k, 'v) WAVLTree \<Rightarrow> 'k \<Rightarrow> bool option" where
  "has t k = map_option (\<lambda>n. n \<noteq> NIL) (search t k)"

definition get :: "('k, 'v) WAVLTree \<Rightarrow> 'k \<Rightarrow> 'v option option" where
  "get t k = map_option (\<lambda>n. if n = NIL then None else Some (val_of t n)) (search t k)"

definition first_map :: "('k, 'v) WAVLTree \<Rightarrow> 'k WAVLMapEntry option" where
  "first_map t =
     map_option (\<lambda>n. WAVLMapEntry (if n = NIL then Vacant NIL Left None else Occupied n))
       (minimum t (root t))"

definition last_map :: "('k, 'v) WAVLTree \<Rightarrow> 'k WAVLMapEntry option" where
  "last_map t =
     map_option (\<lambda>n. WAVLMapEntry (if n = NIL then Vacant NIL Right None else Occupied n))
       (maximum t (root t))"

definition entry_map :: "('k, 'v) WAVLTree \<Rightarrow> 'k \<Rightarrow> 'k WAVLMapEntry option" where
  "entry_map t k = map_option WAVLMapEntry (entry t k)"

definition set_map :: "('k, 'v) WAVLTree \<Rightarrow> 'k \<Rightarrow> 'v \<Rightarrow> ('k, 'v) WAVLTree option" where
  "set_map t k v = map_option snd (insert_tree t k v)"

definition delete_map :: "('k, 'v) WAVLTree \<Rightarrow> 'k \<Rightarrow> (bool \<times> ('k, 'v) WAVLTree) option" where
  "delete_map t k =
     (case search t k of None \<Rightarrow> None
      | Some node \<Rightarrow>
         (if node = NIL then Some (False, t)
          else map_option (\<lambda>(n, t'). (True, t')) (remove t node)))"

definition remove_map ::
  "('k, 'v) WAVLTree \<Rightarrow> 'k \<Rightarrow> ('v option \<times> ('k, 'v) WAVLTree) option" where
  "remove_map t k =
     (case search t k of None \<Rightarrow> None
      | Some node \<Rightarrow>
         (if node = NIL then Some (None, t)
          else map_option (\<lambda>(n, t'). (Some (val_of t' n), t')) (remove t node)))"

partial_function (option) inorder_from :: "('k, 'v) WAVLTree \<Rightarrow> ref \<Rightarrow> ref list option" where
  "inorder_from t node =
     (if node \<noteq> NIL then
        Option.bind (successor t node)
          (\<lambda>nxt. Option.bind (inorder_from t nxt) (\<lambda>ns. Some (node # ns)))
      else Some [])"

declare inorder_from.simps [code]

definition inorder :: "('k, 'v) WAVLTree \<Rightarrow> ref list option" where
  "inorder t = Option.bind (minimum t (root t)) (inorder_from t)"

partial_function (option) inorderReverse_from :: "('k, 'v) WAVLTree \<Rightarrow> ref \<Rightarrow> ref list option" where
  "inorderReverse_from t node =
     (if node \<noteq> NIL then
        Option.bind (predecessor t node)
          (\<lambda>nxt. Option.bind (inorderReverse_from t nxt) (\<lambda>ns. Some (node # ns)))
      else Some [])"

declare inorderReverse_from.simps [code]

definition inorderReverse :: "('k, 'v) WAVLTree \<Rightarrow> ref list option" where
  "inorderReverse t = Option.bind (maximum t (root t)) (inorderReverse_from t)"

definition keys :: "('k, 'v) WAVLTree \<Rightarrow> 'k list option" where
  "keys t = map_option (map (key_of t)) (inorder t)"

definition values_map :: "('k, 'v) WAVLTree \<Rightarrow> 'v list option" where
  "values_map t = map_option (map (val_of t)) (inorder t)"

definition entries :: "('k, 'v) WAVLTree \<Rightarrow> ('k \<times> 'v) list option" where
  "entries t = map_option (map (\<lambda>n. (key_of t n, val_of t n))) (inorder t)"

section \<open>Reading a field after an assignment\<close>

text \<open>
  An assignment to one field of one node changes that field of that node and nothing
  else.  With these equations the field functions are used without their definitions.
\<close>

lemmas field_defs =
  key_of_def val_of_def parity_of_def parent_of_def left_of_def right_of_def removed_of_def
  set_val_def set_parity_def set_parent_def set_left_def set_right_def set_removed_def
  set_root_def

lemma key_of_set_val [simp]: "key_of (set_val n x t) = key_of t"
  by (simp add: field_defs fun_eq_iff)

lemma val_of_set_val [simp]: "val_of (set_val n x t) m = (if m = n then x else val_of t m)"
  by (simp add: field_defs)

lemma parity_of_set_val [simp]: "parity_of (set_val n x t) = parity_of t"
  by (simp add: field_defs fun_eq_iff)

lemma parent_of_set_val [simp]: "parent_of (set_val n x t) = parent_of t"
  by (simp add: field_defs fun_eq_iff)

lemma left_of_set_val [simp]: "left_of (set_val n x t) = left_of t"
  by (simp add: field_defs fun_eq_iff)

lemma right_of_set_val [simp]: "right_of (set_val n x t) = right_of t"
  by (simp add: field_defs fun_eq_iff)

lemma removed_of_set_val [simp]: "removed_of (set_val n x t) = removed_of t"
  by (simp add: field_defs fun_eq_iff)

lemma tree_fields_set_val [simp]:
  "root (set_val n x t) = root t" "tsize (set_val n x t) = tsize t"
  "compare (set_val n x t) = compare t" "fresh (set_val n x t) = fresh t"
  by (simp_all add: field_defs)

lemma key_of_set_parity [simp]: "key_of (set_parity n x t) = key_of t"
  by (simp add: field_defs fun_eq_iff)

lemma val_of_set_parity [simp]: "val_of (set_parity n x t) = val_of t"
  by (simp add: field_defs fun_eq_iff)

lemma parity_of_set_parity [simp]: "parity_of (set_parity n x t) m = (if m = n then x else parity_of t m)"
  by (simp add: field_defs)

lemma parent_of_set_parity [simp]: "parent_of (set_parity n x t) = parent_of t"
  by (simp add: field_defs fun_eq_iff)

lemma left_of_set_parity [simp]: "left_of (set_parity n x t) = left_of t"
  by (simp add: field_defs fun_eq_iff)

lemma right_of_set_parity [simp]: "right_of (set_parity n x t) = right_of t"
  by (simp add: field_defs fun_eq_iff)

lemma removed_of_set_parity [simp]: "removed_of (set_parity n x t) = removed_of t"
  by (simp add: field_defs fun_eq_iff)

lemma tree_fields_set_parity [simp]:
  "root (set_parity n x t) = root t" "tsize (set_parity n x t) = tsize t"
  "compare (set_parity n x t) = compare t" "fresh (set_parity n x t) = fresh t"
  by (simp_all add: field_defs)

lemma key_of_set_parent [simp]: "key_of (set_parent n x t) = key_of t"
  by (simp add: field_defs fun_eq_iff)

lemma val_of_set_parent [simp]: "val_of (set_parent n x t) = val_of t"
  by (simp add: field_defs fun_eq_iff)

lemma parity_of_set_parent [simp]: "parity_of (set_parent n x t) = parity_of t"
  by (simp add: field_defs fun_eq_iff)

lemma parent_of_set_parent [simp]: "parent_of (set_parent n x t) m = (if m = n then x else parent_of t m)"
  by (simp add: field_defs)

lemma left_of_set_parent [simp]: "left_of (set_parent n x t) = left_of t"
  by (simp add: field_defs fun_eq_iff)

lemma right_of_set_parent [simp]: "right_of (set_parent n x t) = right_of t"
  by (simp add: field_defs fun_eq_iff)

lemma removed_of_set_parent [simp]: "removed_of (set_parent n x t) = removed_of t"
  by (simp add: field_defs fun_eq_iff)

lemma tree_fields_set_parent [simp]:
  "root (set_parent n x t) = root t" "tsize (set_parent n x t) = tsize t"
  "compare (set_parent n x t) = compare t" "fresh (set_parent n x t) = fresh t"
  by (simp_all add: field_defs)

lemma key_of_set_left [simp]: "key_of (set_left n x t) = key_of t"
  by (simp add: field_defs fun_eq_iff)

lemma val_of_set_left [simp]: "val_of (set_left n x t) = val_of t"
  by (simp add: field_defs fun_eq_iff)

lemma parity_of_set_left [simp]: "parity_of (set_left n x t) = parity_of t"
  by (simp add: field_defs fun_eq_iff)

lemma parent_of_set_left [simp]: "parent_of (set_left n x t) = parent_of t"
  by (simp add: field_defs fun_eq_iff)

lemma left_of_set_left [simp]: "left_of (set_left n x t) m = (if m = n then x else left_of t m)"
  by (simp add: field_defs)

lemma right_of_set_left [simp]: "right_of (set_left n x t) = right_of t"
  by (simp add: field_defs fun_eq_iff)

lemma removed_of_set_left [simp]: "removed_of (set_left n x t) = removed_of t"
  by (simp add: field_defs fun_eq_iff)

lemma tree_fields_set_left [simp]:
  "root (set_left n x t) = root t" "tsize (set_left n x t) = tsize t"
  "compare (set_left n x t) = compare t" "fresh (set_left n x t) = fresh t"
  by (simp_all add: field_defs)

lemma key_of_set_right [simp]: "key_of (set_right n x t) = key_of t"
  by (simp add: field_defs fun_eq_iff)

lemma val_of_set_right [simp]: "val_of (set_right n x t) = val_of t"
  by (simp add: field_defs fun_eq_iff)

lemma parity_of_set_right [simp]: "parity_of (set_right n x t) = parity_of t"
  by (simp add: field_defs fun_eq_iff)

lemma parent_of_set_right [simp]: "parent_of (set_right n x t) = parent_of t"
  by (simp add: field_defs fun_eq_iff)

lemma left_of_set_right [simp]: "left_of (set_right n x t) = left_of t"
  by (simp add: field_defs fun_eq_iff)

lemma right_of_set_right [simp]: "right_of (set_right n x t) m = (if m = n then x else right_of t m)"
  by (simp add: field_defs)

lemma removed_of_set_right [simp]: "removed_of (set_right n x t) = removed_of t"
  by (simp add: field_defs fun_eq_iff)

lemma tree_fields_set_right [simp]:
  "root (set_right n x t) = root t" "tsize (set_right n x t) = tsize t"
  "compare (set_right n x t) = compare t" "fresh (set_right n x t) = fresh t"
  by (simp_all add: field_defs)

lemma key_of_set_removed [simp]: "key_of (set_removed n x t) = key_of t"
  by (simp add: field_defs fun_eq_iff)

lemma val_of_set_removed [simp]: "val_of (set_removed n x t) = val_of t"
  by (simp add: field_defs fun_eq_iff)

lemma parity_of_set_removed [simp]: "parity_of (set_removed n x t) = parity_of t"
  by (simp add: field_defs fun_eq_iff)

lemma parent_of_set_removed [simp]: "parent_of (set_removed n x t) = parent_of t"
  by (simp add: field_defs fun_eq_iff)

lemma left_of_set_removed [simp]: "left_of (set_removed n x t) = left_of t"
  by (simp add: field_defs fun_eq_iff)

lemma right_of_set_removed [simp]: "right_of (set_removed n x t) = right_of t"
  by (simp add: field_defs fun_eq_iff)

lemma removed_of_set_removed [simp]: "removed_of (set_removed n x t) m = (if m = n then x else removed_of t m)"
  by (simp add: field_defs)

lemma tree_fields_set_removed [simp]:
  "root (set_removed n x t) = root t" "tsize (set_removed n x t) = tsize t"
  "compare (set_removed n x t) = compare t" "fresh (set_removed n x t) = fresh t"
  by (simp_all add: field_defs)

lemma key_of_set_root [simp]: "key_of (set_root x t) = key_of t"
  by (simp add: field_defs fun_eq_iff)

lemma key_of_tsize_update [simp]: "key_of (t\<lparr>tsize := s\<rparr>) = key_of t"
  by (simp add: field_defs fun_eq_iff)

lemma key_of_root_update [simp]: "key_of (t\<lparr>root := s\<rparr>) = key_of t"
  by (simp add: field_defs fun_eq_iff)

lemma val_of_set_root [simp]: "val_of (set_root x t) = val_of t"
  by (simp add: field_defs fun_eq_iff)

lemma val_of_tsize_update [simp]: "val_of (t\<lparr>tsize := s\<rparr>) = val_of t"
  by (simp add: field_defs fun_eq_iff)

lemma val_of_root_update [simp]: "val_of (t\<lparr>root := s\<rparr>) = val_of t"
  by (simp add: field_defs fun_eq_iff)

lemma parity_of_set_root [simp]: "parity_of (set_root x t) = parity_of t"
  by (simp add: field_defs fun_eq_iff)

lemma parity_of_tsize_update [simp]: "parity_of (t\<lparr>tsize := s\<rparr>) = parity_of t"
  by (simp add: field_defs fun_eq_iff)

lemma parity_of_root_update [simp]: "parity_of (t\<lparr>root := s\<rparr>) = parity_of t"
  by (simp add: field_defs fun_eq_iff)

lemma parent_of_set_root [simp]: "parent_of (set_root x t) = parent_of t"
  by (simp add: field_defs fun_eq_iff)

lemma parent_of_tsize_update [simp]: "parent_of (t\<lparr>tsize := s\<rparr>) = parent_of t"
  by (simp add: field_defs fun_eq_iff)

lemma parent_of_root_update [simp]: "parent_of (t\<lparr>root := s\<rparr>) = parent_of t"
  by (simp add: field_defs fun_eq_iff)

lemma left_of_set_root [simp]: "left_of (set_root x t) = left_of t"
  by (simp add: field_defs fun_eq_iff)

lemma left_of_tsize_update [simp]: "left_of (t\<lparr>tsize := s\<rparr>) = left_of t"
  by (simp add: field_defs fun_eq_iff)

lemma left_of_root_update [simp]: "left_of (t\<lparr>root := s\<rparr>) = left_of t"
  by (simp add: field_defs fun_eq_iff)

lemma right_of_set_root [simp]: "right_of (set_root x t) = right_of t"
  by (simp add: field_defs fun_eq_iff)

lemma right_of_tsize_update [simp]: "right_of (t\<lparr>tsize := s\<rparr>) = right_of t"
  by (simp add: field_defs fun_eq_iff)

lemma right_of_root_update [simp]: "right_of (t\<lparr>root := s\<rparr>) = right_of t"
  by (simp add: field_defs fun_eq_iff)

lemma removed_of_set_root [simp]: "removed_of (set_root x t) = removed_of t"
  by (simp add: field_defs fun_eq_iff)

lemma removed_of_tsize_update [simp]: "removed_of (t\<lparr>tsize := s\<rparr>) = removed_of t"
  by (simp add: field_defs fun_eq_iff)

lemma removed_of_root_update [simp]: "removed_of (t\<lparr>root := s\<rparr>) = removed_of t"
  by (simp add: field_defs fun_eq_iff)

lemma tree_fields_set_root [simp]:
  "root (set_root x t) = x" "tsize (set_root x t) = tsize t"
  "compare (set_root x t) = compare t" "fresh (set_root x t) = fresh t"
  by (simp_all add: field_defs)

lemma parity_of_promote [simp]:
  "parity_of (promote n t) m = (if m = n then flip (parity_of t n) else parity_of t m)"
  by (simp add: promote_def)

lemma parity_of_demote [simp]:
  "parity_of (demote n t) m = (if m = n then flip (parity_of t n) else parity_of t m)"
  by (simp add: demote_def)

lemma fields_promote [simp]:
  "key_of (promote n t) = key_of t" "val_of (promote n t) = val_of t"
  "parent_of (promote n t) = parent_of t" "left_of (promote n t) = left_of t"
  "right_of (promote n t) = right_of t" "removed_of (promote n t) = removed_of t"
  "root (promote n t) = root t" "tsize (promote n t) = tsize t"
  "compare (promote n t) = compare t" "fresh (promote n t) = fresh t"
  by (simp_all add: promote_def)

lemma fields_demote [simp]:
  "key_of (demote n t) = key_of t" "val_of (demote n t) = val_of t"
  "parent_of (demote n t) = parent_of t" "left_of (demote n t) = left_of t"
  "right_of (demote n t) = right_of t" "removed_of (demote n t) = removed_of t"
  "root (demote n t) = root t" "tsize (demote n t) = tsize t"
  "compare (demote n t) = compare t" "fresh (demote n t) = fresh t"
  by (simp_all add: demote_def)

lemma demote_eq_promote: "demote n t = promote n t"
  by (simp add: demote_def promote_def)

lemma flip_flip [simp]: "flip (flip p) = p"
  by (cases p) simp_all

lemma flip_neq [simp]: "flip p \<noteq> p" "p \<noteq> flip p"
  by (cases p; simp)+

lemma flip_eq_iff [simp]: "(flip p = flip q) = (p = q)"
  by (cases p; cases q; simp)

text \<open>The sentinel as the constructor left it.\<close>

definition sentinel :: "('k, 'v) WAVLTree \<Rightarrow> bool" where
  "sentinel t \<longleftrightarrow>
     parity_of t NIL = One \<and> parent_of t NIL = NIL \<and> left_of t NIL = NIL \<and>
     right_of t NIL = NIL \<and> \<not> removed_of t NIL"

lemma sentinel_empty_tree: "sentinel (empty_tree cmp k0 v0)"
  by (simp add: sentinel_def empty_tree_def new_node_def field_defs)

lemma minimum_NIL: "left_of t NIL = NIL \<Longrightarrow> minimum t NIL = Some NIL"
  by (subst minimum.simps) simp

lemma maximum_NIL: "right_of t NIL = NIL \<Longrightarrow> maximum t NIL = Some NIL"
  by (subst maximum.simps) simp


section \<open>What the rebalancing leaves alone\<close>

lemma parent_of_replace_child [simp]: "parent_of (replace_child n r t) = parent_of t"
  by (simp add: replace_child_def)

lemma left_of_replace_child:
  "left_of (replace_child n r t) w =
     (if parent_of t n \<noteq> NIL \<and> w = parent_of t n \<and> left_of t (parent_of t n) = n then r
      else left_of t w)"
  by (simp add: replace_child_def)

lemma right_of_replace_child:
  "right_of (replace_child n r t) w =
     (if parent_of t n \<noteq> NIL \<and> w = parent_of t n \<and> left_of t (parent_of t n) \<noteq> n then r
      else right_of t w)"
  by (simp add: replace_child_def)

lemma root_replace_child:
  "root (replace_child n r t) = (if parent_of t n = NIL then r else root t)"
  by (simp add: replace_child_def)

lemma data_replace_child [simp]:
  "key_of (replace_child n r t) = key_of t" "val_of (replace_child n r t) = val_of t"
  "parity_of (replace_child n r t) = parity_of t"
  "removed_of (replace_child n r t) = removed_of t"
  "tsize (replace_child n r t) = tsize t" "compare (replace_child n r t) = compare t"
  "fresh (replace_child n r t) = fresh t"
  by (simp_all add: replace_child_def)

text \<open>
  Rotations and rank changes write links and parities only: the keys, the values, the
  removed flags, the size, the comparator and the allocation point stay as they are.
\<close>

definition same_data :: "('k, 'v) WAVLTree \<Rightarrow> ('k, 'v) WAVLTree \<Rightarrow> bool" where
  "same_data t t' \<longleftrightarrow>
     key_of t' = key_of t \<and> val_of t' = val_of t \<and> removed_of t' = removed_of t \<and>
     tsize t' = tsize t \<and> compare t' = compare t \<and> fresh t' = fresh t"

lemma same_data_refl [simp]: "same_data t t"
  by (simp add: same_data_def)

lemma same_data_trans: "same_data t t' \<Longrightarrow> same_data t' t'' \<Longrightarrow> same_data t t''"
  by (simp add: same_data_def)

lemma same_data_step [simp]:
  "same_data t (set_parity n p t') = same_data t t'"
  "same_data t (set_parent n x t') = same_data t t'"
  "same_data t (set_left n x t') = same_data t t'"
  "same_data t (set_right n x t') = same_data t t'"
  "same_data t (set_root x t') = same_data t t'"
  "same_data t (promote n t') = same_data t t'"
  "same_data t (demote n t') = same_data t t'"
  "same_data t (replace_child n x t') = same_data t t'"
  by (simp_all add: same_data_def)

lemma same_data_pre [simp]:
  "same_data (demote n t) t' = same_data t t'"
  "same_data (promote n t) t' = same_data t t'"
  "same_data (set_parity n p t) t' = same_data t t'"
  "same_data (set_parent n x t) t' = same_data t t'"
  "same_data (set_left n x t) t' = same_data t t'"
  "same_data (set_right n x t) t' = same_data t t'"
  "same_data (set_root x t) t' = same_data t t'"
  by (simp_all add: same_data_def)

lemma same_data_rotate:
  "same_data t (rotateLeft t n r)" "same_data t (rotateRight t n r)"
  "same_data t (rotateLeftRight t p n r)" "same_data t (rotateRightLeft t p n r)"
  unfolding rotateLeft_def rotateRight_def rotateLeftRight_def rotateRightLeft_def Let_def
  by simp_all

lemma same_data_rot_iff [simp]:
  "same_data t (rotateLeft t' n r) = same_data t t'"
  "same_data t (rotateRight t' n r) = same_data t t'"
  "same_data t (rotateLeftRight t' p n r) = same_data t t'"
  "same_data t (rotateRightLeft t' p n r) = same_data t t'"
  using same_data_rotate(1) [of t' n r] same_data_rotate(2) [of t' n r]
    same_data_rotate(3) [of t' p n r] same_data_rotate(4) [of t' p n r]
  by (auto simp: same_data_def)


lemma removeFixup_loop_data:
  assumes "removeFixup_loop t p n = Some t'"
  shows "same_data t t'"
  using assms
  by (rule removeFixup_loop.raw_induct [where P = "\<lambda>t p n t'. same_data t t'", rotated])
     (fastforce split: if_splits)


lemma removeFixup_data: "removeFixup t p n = Some t' \<Longrightarrow> same_data t t'"
  by (auto simp: removeFixup_def split: if_splits dest: removeFixup_loop_data)


text \<open>
  What \<^verbatim>\<open>remove\<close> returns: the node given, now marked as removed; no key, no value and
  no other removed flag has changed, and the size is one less.
\<close>

lemma same_data_remove_swap: "remove_swap t n m = (t1, p, c) \<Longrightarrow> same_data t t1"
  by (auto simp: remove_swap_def Let_def split: if_splits prod.splits)

lemma remove_splice_data:
  "remove_splice t n c = Some (node, t') \<Longrightarrow> node = n \<and> same_data t t'"
  by (auto simp: remove_splice_def Let_def split: if_splits option.splits
      dest!: removeFixup_data)

lemma remove_result:
  assumes "remove t n = Some (node, t')"
  shows "node = n \<and> key_of t' = key_of t \<and> val_of t' = val_of t \<and>
         removed_of t' = (removed_of t)(n := True) \<and> tsize t' = tsize t - 1 \<and>
         fresh t' = fresh t \<and> compare t' = compare t"
proof -
  define t0 where "t0 = set_removed n True (t\<lparr>tsize := tsize t - 1\<rparr>)"
  have d0: "key_of t0 = key_of t" "val_of t0 = val_of t"
    "removed_of t0 = (removed_of t)(n := True)" "tsize t0 = tsize t - 1"
    "fresh t0 = fresh t" "compare t0 = compare t"
    by (simp_all add: t0_def) (simp_all add: field_defs fun_eq_iff)
  from assms have "node = n \<and> same_data t0 t'"
    by (auto simp: remove_def Let_def t0_def [symmetric]
        split: if_splits option.splits prod.splits
        dest!: remove_splice_data removeFixup_data same_data_remove_swap
        intro: same_data_trans)
  with d0 show ?thesis
    by (simp add: same_data_def)
qed

section \<open>The first and the last entry of an empty map\<close>

text \<open>
  Claim C10.  On a map without entries (its root is the sentinel, and the sentinel is as
  its constructor left it: its own left child, right child and parent, and not removed),
  \<^verbatim>\<open>first()\<close> and \<^verbatim>\<open>last()\<close> raise nothing and return a vacant entry: \<^verbatim>\<open>isEmpty\<close> is
  true, \<^verbatim>\<open>key\<close>, \<^verbatim>\<open>value\<close> and \<^verbatim>\<open>entry\<close> are \<^verbatim>\<open>undefined\<close>, \<^verbatim>\<open>delete()\<close> returns
  false and \<^verbatim>\<open>remove()\<close> returns \<^verbatim>\<open>undefined\<close>, both leaving the tree as it was.  The
  reason is that \<^verbatim>\<open>minimum\<close> and \<^verbatim>\<open>maximum\<close> of the sentinel are the sentinel.
\<close>

theorem first_last_empty_map:
  assumes "root t = NIL" and "sentinel t"
  shows "minimum t NIL = Some NIL \<and> maximum t NIL = Some NIL \<and>
         (\<exists>f l. first_map t = Some f \<and> last_map t = Some l \<and>
            (\<forall>e \<in> {f, l}.
               isEmpty_entry e \<and> key_entry t e = None \<and> value_entry t e = None \<and>
               entry_entry t e = None \<and>
               delete_entry t e = Some (Inr False, t) \<and>
               remove_entry t e = Some (Inr None, t)))"
  using assms
  by (simp add: sentinel_def first_map_def last_map_def minimum_NIL maximum_NIL
      isEmpty_entry_def key_entry_def value_entry_def entry_entry_def delete_entry_def
      remove_entry_def validate_entry_def validate_inner_def validate_def)

theorem first_last_empty_map_witness:
  "root (empty_tree ascending (0::int) (0::int)) = NIL \<and>
   sentinel (empty_tree ascending (0::int) (0::int)) \<and>
   first_map (empty_tree ascending (0::int) (0::int)) = Some (WAVLMapEntry (Vacant NIL Left None)) \<and>
   last_map (empty_tree ascending (0::int) (0::int)) = Some (WAVLMapEntry (Vacant NIL Right None))"
proof -
  have r: "root (empty_tree ascending (0::int) (0::int)) = NIL"
    by (simp add: empty_tree_def)
  have s: "sentinel (empty_tree ascending (0::int) (0::int))"
    by (rule sentinel_empty_tree)
  from first_last_empty_map [OF r s] r s show ?thesis
    by (simp add: first_map_def last_map_def)
qed

section \<open>The range from 2 to 3, end excluded, over the keys 2 and 3\<close>

text \<open>
  The two maps with exactly the keys 2 and 3: \<open>tree_23\<close> after \<^verbatim>\<open>set(2, 20)\<close> and
  \<^verbatim>\<open>set(3, 30)\<close> on an empty map, \<open>tree_32\<close> after the same calls in the other order.
  Node 1 is the node made first.
\<close>

definition tree_23 :: "(int, int) WAVLTree" where
  "tree_23 =
     \<lparr>compare = ascending, root = 1, tsize = 2,
      heap = (\<lambda>_. new_node 0 0 One NIL)
        (1 := \<lparr>key = 2, val = 20, parity = One, parent = NIL, left = NIL, right = 2,
               removed = False\<rparr>,
         2 := \<lparr>key = 3, val = 30, parity = Zero, parent = 1, left = NIL, right = NIL,
               removed = False\<rparr>),
      fresh = 3\<rparr>"

definition tree_32 :: "(int, int) WAVLTree" where
  "tree_32 =
     \<lparr>compare = ascending, root = 1, tsize = 2,
      heap = (\<lambda>_. new_node 0 0 One NIL)
        (1 := \<lparr>key = 3, val = 30, parity = One, parent = NIL, left = 2, right = NIL,
               removed = False\<rparr>,
         2 := \<lparr>key = 2, val = 20, parity = Zero, parent = 1, left = NIL, right = NIL,
               removed = False\<rparr>),
      fresh = 3\<rparr>"

lemmas eval_defs =
  insertEmpty_def alloc_def Let_def NIL_def field_defs new_node_def ascending_def
  insertFixup_def promote_def demote_def set_map_def insert_tree_def empty_tree_def

lemma tree_23_built:
  "Option.bind (set_map (empty_tree ascending 0 0) 2 20) (\<lambda>t. set_map t 3 30) = Some tree_23"
  apply (simp add: set_map_def insert_tree_def empty_tree_def)
  apply (subst insert_from.simps)
  apply (simp add: eval_defs)
  apply (subst insert_from.simps)
  apply (simp add: eval_defs)
  apply (subst insert_from.simps)
  apply (simp add: eval_defs)
  apply (subst insertFixup_loop.simps)
  apply (simp add: eval_defs tree_23_def fun_eq_iff)
  done

lemma tree_32_built:
  "Option.bind (set_map (empty_tree ascending 0 0) 3 30) (\<lambda>t. set_map t 2 20) = Some tree_32"
  apply (simp add: set_map_def insert_tree_def empty_tree_def)
  apply (subst insert_from.simps)
  apply (simp add: eval_defs)
  apply (subst insert_from.simps)
  apply (simp add: eval_defs)
  apply (subst insert_from.simps)
  apply (simp add: eval_defs)
  apply (subst insertFixup_loop.simps)
  apply (simp add: eval_defs tree_32_def fun_eq_iff)
  done

lemma keys_tree_23: "keys tree_23 = Some [2, 3]"
  unfolding tree_23_def by code_simp

lemma keys_tree_32: "keys tree_32 = Some [2, 3]"
  unfolding tree_32_def by code_simp

text \<open>
  Claim C4 says that \<^verbatim>\<open>range(2, 3, true)\<close> over the keys 2 and 3 is of kind
  \<^verbatim>\<open>Exclusive\<close> with both bounds at the node of key 2 and that \<^verbatim>\<open>first()\<close> is vacant.
  On \<open>tree_23\<close> the range is of kind \<^verbatim>\<open>Default\<close>, and \<^verbatim>\<open>first()\<close> is the occupied
  entry of key 2.
\<close>

theorem range_2_3_exclusive_counterexample:
  "range_tree tree_23 (Some 2) (Some 3) True
     = Some (Inr \<lparr>lower = 1, upper = 1, kind = Default\<rparr>) \<and>
   Default \<noteq> Exclusive \<and>
   first_range tree_23 \<lparr>lower = 1, upper = 1, kind = Default\<rparr>
     = Some (Inr (WAVLMapEntry (Occupied 1))) \<and>
   \<not> isEmpty_entry (WAVLMapEntry (Occupied 1 :: int Inner))"
proof -
  have "range_tree tree_23 (Some 2) (Some 3) True
          = Some (Inr \<lparr>lower = 1, upper = 1, kind = Default\<rparr>)"
    unfolding tree_23_def by code_simp
  moreover have "first_range tree_23 \<lparr>lower = 1, upper = 1, kind = Default\<rparr>
          = Some (Inr (WAVLMapEntry (Occupied 1)))"
    unfolding tree_23_def by code_simp
  ultimately show ?thesis
    by (simp add: isEmpty_entry_def)
qed

text \<open>
  Claim C4 as amended: on both maps with exactly the keys 2 and 3,
  \<^verbatim>\<open>range(2, 3, true)\<close> is a range of kind \<^verbatim>\<open>Default\<close> whose lower and upper bound are
  the node of key 2; it is not empty, its entries are the one pair of key 2, its count is 1,
  and \<^verbatim>\<open>first()\<close> and \<^verbatim>\<open>last()\<close> return the occupied entry of key 2.
\<close>

theorem range_2_3_exclusive_is_key_2:
  "range_tree tree_23 (Some 2) (Some 3) True
     = Some (Inr \<lparr>lower = 1, upper = 1, kind = Default\<rparr>) \<and>
   key_of tree_23 1 = 2 \<and>
   \<not> isEmpty_range \<lparr>lower = 1, upper = 1, kind = Default\<rparr> \<and>
   entries_range tree_23 \<lparr>lower = 1, upper = 1, kind = Default\<rparr> = Some (Inr [(2, 20)]) \<and>
   count_range tree_23 \<lparr>lower = 1, upper = 1, kind = Default\<rparr> = Some (Inr 1) \<and>
   first_range tree_23 \<lparr>lower = 1, upper = 1, kind = Default\<rparr>
     = Some (Inr (WAVLMapEntry (Occupied 1))) \<and>
   last_range tree_23 \<lparr>lower = 1, upper = 1, kind = Default\<rparr>
     = Some (Inr (WAVLMapEntry (Occupied 1))) \<and>
   range_tree tree_32 (Some 2) (Some 3) True
     = Some (Inr \<lparr>lower = 2, upper = 2, kind = Default\<rparr>) \<and>
   key_of tree_32 2 = 2 \<and>
   entries_range tree_32 \<lparr>lower = 2, upper = 2, kind = Default\<rparr> = Some (Inr [(2, 20)]) \<and>
   count_range tree_32 \<lparr>lower = 2, upper = 2, kind = Default\<rparr> = Some (Inr 1) \<and>
   first_range tree_32 \<lparr>lower = 2, upper = 2, kind = Default\<rparr>
     = Some (Inr (WAVLMapEntry (Occupied 2))) \<and>
   last_range tree_32 \<lparr>lower = 2, upper = 2, kind = Default\<rparr>
     = Some (Inr (WAVLMapEntry (Occupied 2)))"
proof -
  have a: "range_tree tree_23 (Some 2) (Some 3) True
          = Some (Inr \<lparr>lower = 1, upper = 1, kind = Default\<rparr>)"
    unfolding tree_23_def by code_simp
  have b: "entries_range tree_23 \<lparr>lower = 1, upper = 1, kind = Default\<rparr> = Some (Inr [(2, 20)])"
    unfolding tree_23_def by code_simp
  have c: "count_range tree_23 \<lparr>lower = 1, upper = 1, kind = Default\<rparr> = Some (Inr 1)"
    unfolding tree_23_def by code_simp
  have d: "first_range tree_23 \<lparr>lower = 1, upper = 1, kind = Default\<rparr>
          = Some (Inr (WAVLMapEntry (Occupied 1)))"
    unfolding tree_23_def by code_simp
  have e: "last_range tree_23 \<lparr>lower = 1, upper = 1, kind = Default\<rparr>
          = Some (Inr (WAVLMapEntry (Occupied 1)))"
    unfolding tree_23_def by code_simp
  have a': "range_tree tree_32 (Some 2) (Some 3) True
          = Some (Inr \<lparr>lower = 2, upper = 2, kind = Default\<rparr>)"
    unfolding tree_32_def by code_simp
  have b': "entries_range tree_32 \<lparr>lower = 2, upper = 2, kind = Default\<rparr> = Some (Inr [(2, 20)])"
    unfolding tree_32_def by code_simp
  have c': "count_range tree_32 \<lparr>lower = 2, upper = 2, kind = Default\<rparr> = Some (Inr 1)"
    unfolding tree_32_def by code_simp
  have d': "first_range tree_32 \<lparr>lower = 2, upper = 2, kind = Default\<rparr>
          = Some (Inr (WAVLMapEntry (Occupied 2)))"
    unfolding tree_32_def by code_simp
  have e': "last_range tree_32 \<lparr>lower = 2, upper = 2, kind = Default\<rparr>
          = Some (Inr (WAVLMapEntry (Occupied 2)))"
    unfolding tree_32_def by code_simp
  have k: "key_of tree_23 1 = 2" "key_of tree_32 2 = 2"
    by (simp_all add: tree_23_def tree_32_def key_of_def)
  from a b c d e a' b' c' d' e' k show ?thesis
    by (simp add: isEmpty_range_def isEmpty_kind_def)
qed

section \<open>Errors leave the tree as it was\<close>

lemma insert_checked_error:
  "insert_checked t prev nxt p b k v = Some (Inl err, t') \<Longrightarrow>
     t' = t \<and> err = KeyOrderViolation \<and> validateKey t prev k nxt = Some KeyOrderViolation"
  by (auto simp: insert_checked_def validateKey_def split: option.splits if_splits)

lemma insert_checked_refused:
  "validateKey t prev k nxt = Some err \<Longrightarrow>
     insert_checked t prev nxt p b k v = Some (Inl err, t)"
  by (simp add: insert_checked_def)

lemma insertBefore_inner_error:
  "insertBefore_inner t i k v = Some (Inl err, t') \<Longrightarrow> t' = t \<and> err = KeyOrderViolation"
  by (cases i) (auto split: option.splits if_splits dest: insert_checked_error)

lemma insertAfter_inner_error:
  "insertAfter_inner t i k v = Some (Inl err, t') \<Longrightarrow> t' = t \<and> err = KeyOrderViolation"
  by (cases i) (auto split: option.splits if_splits dest: insert_checked_error)

lemma insertBefore_entry_error:
  "insertBefore_entry t e k v = Some (Inl err, e', t') \<Longrightarrow>
     t' = t \<and> e' = e \<and>
     (if removed_of t (node_of (inner e)) then err = StaleCursor else err = KeyOrderViolation)"
  by (auto simp: insertBefore_entry_def validate_entry_def validate_inner_def validate_def
      morph_def split: option.splits if_splits prod.splits sum.splits
      dest: insertBefore_inner_error)

lemma insertAfter_entry_error:
  "insertAfter_entry t e k v = Some (Inl err, e', t') \<Longrightarrow>
     t' = t \<and> e' = e \<and>
     (if removed_of t (node_of (inner e)) then err = StaleCursor else err = KeyOrderViolation)"
  by (auto simp: insertAfter_entry_def validate_entry_def validate_inner_def validate_def
      morph_def split: option.splits if_splits prod.splits sum.splits
      dest: insertAfter_inner_error)

lemma insert_entry_error:
  "insert_entry t e v = Some (Inl err, e', t') \<Longrightarrow>
     t' = t \<and> e' = e \<and> err = StaleCursor \<and> removed_of t (node_of (inner e))"
  by (cases "(t, e, v)" rule: insert_entry.cases)
     (auto simp: validate_def replace_def split: option.splits if_splits)

lemma set_entry_error:
  "set_entry t e v = Some (Inl err, e', t') \<Longrightarrow>
     t' = t \<and> e' = e \<and> err = StaleCursor \<and> removed_of t (node_of (inner e))"
  by (cases "insert_entry t e v")
     (auto simp: set_entry_def split: sum.splits dest: insert_entry_error)

lemma delete_entry_error:
  "delete_entry t e = Some (Inl err, t') \<Longrightarrow>
     t' = t \<and> err = StaleCursor \<and> removed_of t (node_of (inner e))"
  by (auto simp: delete_entry_def validate_entry_def validate_inner_def validate_def
      split: option.splits if_splits)

lemma remove_entry_error:
  "remove_entry t e = Some (Inl err, t') \<Longrightarrow>
     t' = t \<and> err = StaleCursor \<and> removed_of t (node_of (inner e))"
  by (auto simp: remove_entry_def validate_entry_def validate_inner_def validate_def
      split: option.splits if_splits)

lemma delete_range_error:
  "delete_range t r = Some (Inl err, r', t') \<Longrightarrow>
     t' = t \<and> err = StaleCursor \<and> (removed_of t (lower r) \<or> removed_of t (upper r))"
  by (auto simp: delete_range_def validate_def split: option.splits if_splits)

lemma remove_range_error:
  "remove_range t r = Some (Inl err, r', t') \<Longrightarrow>
     t' = t \<and> err = StaleCursor \<and> (removed_of t (lower r) \<or> removed_of t (upper r))"
  by (auto simp: remove_range_def validate_def split: option.splits if_splits)

lemma stale_entry:
  assumes "removed_of t (node_of (inner e))"
  shows "prev_entry t e = Some (Inl StaleCursor)" "next_entry t e = Some (Inl StaleCursor)"
    "insertBefore_entry t e k v = Some (Inl StaleCursor, e, t)"
    "insertAfter_entry t e k v = Some (Inl StaleCursor, e, t)"
    "delete_entry t e = Some (Inl StaleCursor, t)"
    "remove_entry t e = Some (Inl StaleCursor, t)"
  using assms
  by (simp_all add: prev_entry_def next_entry_def insertBefore_entry_def insertAfter_entry_def
      delete_entry_def remove_entry_def validate_entry_def validate_inner_def validate_def)

lemma stale_insert_entry:
  assumes "removed_of t (node_of (inner e))" and "keyed e"
  shows "insert_entry t e v = Some (Inl StaleCursor, e, t)"
  using assms
  by (cases "(t, e, v)" rule: insert_entry.cases) (auto simp: validate_def keyed_def)

lemma consumed_range:
  assumes "kind r = Removed"
  shows "first_range t r = Some (Inl (if removed_of t (lower r) then StaleCursor else ConsumedRange))"
    "last_range t r = Some (Inl (if removed_of t (upper r) then StaleCursor else ConsumedRange))"
  using assms by (simp_all add: first_range_def last_range_def validate_def)

lemma invalid_range:
  "compare t a b > 0 \<Longrightarrow> searchRange t (Some a) (Some b) ex = Some (Inl InvalidRange)"
  "compare t a b > 0 \<Longrightarrow> range_tree t (Some a) (Some b) ex = Some (Inl InvalidRange)"
  by (simp_all add: searchRange_def range_tree_def)

text \<open>
  Claim C6.  Whenever one of the four errors is raised, the tree is the tree before the
  call, and so is the entry object.  In detail: (1) every entry method on an entry whose
  node is tombstoned raises \<^verbatim>\<open>StaleCursor\<close> and returns the tree it was given;
  (2) if \<^verbatim>\<open>insertBefore\<close>, \<^verbatim>\<open>insertAfter\<close>, \<^verbatim>\<open>insert\<close>, \<^verbatim>\<open>set\<close>, \<^verbatim>\<open>delete\<close> or
  \<^verbatim>\<open>remove\<close> of an entry, or \<^verbatim>\<open>delete\<close> or \<^verbatim>\<open>remove\<close> of a range, ends in an error,
  whichever it is, the tree after the call equals the tree before it; a key refused by
  \<^verbatim>\<open>validateKey\<close> gives \<^verbatim>\<open>KeyOrderViolation\<close> before anything is written;
  (3) \<^verbatim>\<open>range(start, end)\<close> with \<^verbatim>\<open>start > end\<close> raises \<^verbatim>\<open>InvalidRange\<close>; (4)
  \<^verbatim>\<open>first\<close> and \<^verbatim>\<open>last\<close> of a consumed range raise an error.  The methods \<^verbatim>\<open>prev\<close>,
  \<^verbatim>\<open>next\<close>, \<^verbatim>\<open>range\<close>, \<^verbatim>\<open>first\<close> and \<^verbatim>\<open>last\<close> contain no assignment to the tree, so
  their model returns no tree.
\<close>

theorem errors_leave_tree_unchanged:
  "(removed_of t (node_of (inner e)) \<longrightarrow>
      prev_entry t e = Some (Inl StaleCursor) \<and> next_entry t e = Some (Inl StaleCursor) \<and>
      insertBefore_entry t e k v = Some (Inl StaleCursor, e, t) \<and>
      insertAfter_entry t e k v = Some (Inl StaleCursor, e, t) \<and>
      delete_entry t e = Some (Inl StaleCursor, t) \<and>
      remove_entry t e = Some (Inl StaleCursor, t) \<and>
      (keyed e \<longrightarrow> insert_entry t e v = Some (Inl StaleCursor, e, t))) \<and>
   (insertBefore_entry t e k v = Some (Inl err, e', t') \<longrightarrow> t' = t \<and> e' = e) \<and>
   (insertAfter_entry t e k v = Some (Inl err, e', t') \<longrightarrow> t' = t \<and> e' = e) \<and>
   (insert_entry t e v = Some (Inl err, e', t') \<longrightarrow> t' = t \<and> e' = e) \<and>
   (set_entry t e v = Some (Inl err, e', t') \<longrightarrow> t' = t \<and> e' = e) \<and>
   (delete_entry t e = Some (Inl err, t') \<longrightarrow> t' = t) \<and>
   (remove_entry t e = Some (Inl err, t') \<longrightarrow> t' = t) \<and>
   (delete_range t r = Some (Inl err, r', t') \<longrightarrow> t' = t) \<and>
   (remove_range t r = Some (Inl err, r', t') \<longrightarrow> t' = t) \<and>
   (validateKey t prev k nxt = Some err \<longrightarrow>
      err = KeyOrderViolation \<and> insert_checked t prev nxt p b k v = Some (Inl err, t)) \<and>
   (compare t k k' > 0 \<longrightarrow> range_tree t (Some k) (Some k') ex = Some (Inl InvalidRange)) \<and>
   (kind r = Removed \<longrightarrow>
      first_range t r = Some (Inl (if removed_of t (lower r) then StaleCursor else ConsumedRange)) \<and>
      last_range t r = Some (Inl (if removed_of t (upper r) then StaleCursor else ConsumedRange)))"
proof -
  have vk: "validateKey t prev k nxt = Some err \<Longrightarrow> err = KeyOrderViolation"
    by (auto simp: validateKey_def split: if_splits)
  show ?thesis
    by (intro conjI impI)
       (auto simp: stale_entry stale_insert_entry insert_checked_refused invalid_range
          consumed_range
        dest: insertBefore_entry_error insertAfter_entry_error insert_entry_error
          set_entry_error delete_entry_error remove_entry_error delete_range_error
          remove_range_error vk)
qed

text \<open>
  The claim at work on \<open>tree_23\<close>: \<^verbatim>\<open>insertBefore(2, 40)\<close> on the entry of key 3 is
  refused and leaves the tree; the range from 3 to 2 is refused; an entry of key 3 is stale
  after \<^verbatim>\<open>delete(3)\<close>, and its methods leave the tree; \<^verbatim>\<open>first\<close> of a consumed range
  without bounds is refused.
\<close>

theorem errors_leave_tree_unchanged_witness:
  "insertBefore_entry tree_23 (WAVLMapEntry (Occupied 2)) 2 40
     = Some (Inl KeyOrderViolation, WAVLMapEntry (Occupied 2), tree_23) \<and>
   range_tree tree_23 (Some 3) (Some 2) False = Some (Inl InvalidRange) \<and>
   first_range tree_23 \<lparr>lower = NIL, upper = NIL, kind = Removed\<rparr> = Some (Inl ConsumedRange) \<and>
   (\<exists>t1. delete_map tree_23 3 = Some (True, t1) \<and> removed_of t1 2 \<and>
      next_entry t1 (WAVLMapEntry (Occupied 2)) = Some (Inl StaleCursor) \<and>
      insertAfter_entry t1 (WAVLMapEntry (Occupied 2)) 4 40
        = Some (Inl StaleCursor, WAVLMapEntry (Occupied 2), t1) \<and>
      delete_entry t1 (WAVLMapEntry (Occupied 2)) = Some (Inl StaleCursor, t1))"
proof -
  have "map_option fst (insertBefore_entry tree_23 (WAVLMapEntry (Occupied 2)) 2 40)
          = Some (Inl KeyOrderViolation)"
    unfolding tree_23_def by code_simp
  then obtain e' t' where r: "insertBefore_entry tree_23 (WAVLMapEntry (Occupied 2)) 2 40
          = Some (Inl KeyOrderViolation, e', t')"
    by (cases "insertBefore_entry tree_23 (WAVLMapEntry (Occupied 2)) 2 40") auto
  have a: "insertBefore_entry tree_23 (WAVLMapEntry (Occupied 2)) 2 40
     = Some (Inl KeyOrderViolation, WAVLMapEntry (Occupied 2), tree_23)"
    using errors_leave_tree_unchanged
      [of tree_23 "WAVLMapEntry (Occupied 2)" 2 40 KeyOrderViolation e' t'] r
    by simp
  have c: "compare tree_23 3 2 > 0"
    by (simp add: tree_23_def ascending_def)
  have b: "range_tree tree_23 (Some 3) (Some 2) False = Some (Inl InvalidRange)"
    using errors_leave_tree_unchanged [of tree_23 _ 3 _ _ _ _ _ _ _ _ _ _ 2 False] c
    by simp
  have n: "\<not> removed_of tree_23 NIL"
    by (simp add: tree_23_def removed_of_def new_node_def NIL_def)
  have d: "first_range tree_23 \<lparr>lower = NIL, upper = NIL, kind = Removed\<rparr>
          = Some (Inl ConsumedRange)"
    using errors_leave_tree_unchanged
      [where t = tree_23 and r = "\<lparr>lower = NIL, upper = NIL, kind = Removed\<rparr>"] n
    by simp
  have "map_option (\<lambda>(b, t1). (b, removed_of t1 2)) (delete_map tree_23 3) = Some (True, True)"
    unfolding tree_23_def by code_simp
  then obtain t1 where t1: "delete_map tree_23 3 = Some (True, t1)" "removed_of t1 2"
    by (cases "delete_map tree_23 3") auto
  have e: "next_entry t1 (WAVLMapEntry (Occupied 2)) = Some (Inl StaleCursor) \<and>
      insertAfter_entry t1 (WAVLMapEntry (Occupied 2)) 4 40
        = Some (Inl StaleCursor, WAVLMapEntry (Occupied 2), t1) \<and>
      delete_entry t1 (WAVLMapEntry (Occupied 2)) = Some (Inl StaleCursor, t1)"
    using errors_leave_tree_unchanged
      [where t = t1 and e = "WAVLMapEntry (Occupied 2)" and k = 4 and v = 40] t1(2)
    by simp
  from a b d e t1 show ?thesis
    by blast
qed

section \<open>A range is consumed once\<close>

lemma delete_loop_removed:
  assumes "delete_loop t up n c = Some (c', t')"
  shows "(\<forall>m. removed_of t m \<longrightarrow> removed_of t' m) \<and> (n \<noteq> NIL \<longrightarrow> removed_of t' n)"
proof -
  have "(\<forall>m. removed_of t m \<longrightarrow> removed_of (snd (c', t')) m) \<and>
        (n \<noteq> NIL \<longrightarrow> removed_of (snd (c', t')) n)"
    using assms
  proof (rule delete_loop.raw_induct
      [where P = "\<lambda>t up n c r. (\<forall>m. removed_of t m \<longrightarrow> removed_of (snd r) m) \<and>
                    (n \<noteq> NIL \<longrightarrow> removed_of (snd r) n)", rotated], goal_cases)
    case (1 f t up n c y)
    show ?case
    proof (cases "n = NIL")
      case True
      with 1(2) show ?thesis by auto
    next
      case False
      with 1(2) obtain nxt r where
        r: "remove t n = Some r" and f: "f (snd r) up nxt (c + 1) = Some y"
        by (auto simp: bind_eq_Some_conv split: if_splits)
      from remove_result [of t n "fst r" "snd r"] r
      have rm: "removed_of (snd r) = (removed_of t)(n := True)" by simp
      from 1(1) [OF f] rm show ?thesis by simp
    qed
  qed
  then show ?thesis by simp
qed

lemma remove_loop_removed:
  assumes "remove_loop t up n acc = Some (c', t')"
  shows "(\<forall>m. removed_of t m \<longrightarrow> removed_of t' m) \<and> (n \<noteq> NIL \<longrightarrow> removed_of t' n)"
proof -
  have "(\<forall>m. removed_of t m \<longrightarrow> removed_of (snd (c', t')) m) \<and>
        (n \<noteq> NIL \<longrightarrow> removed_of (snd (c', t')) n)"
    using assms
  proof (rule remove_loop.raw_induct
      [where P = "\<lambda>t up n c r. (\<forall>m. removed_of t m \<longrightarrow> removed_of (snd r) m) \<and>
                    (n \<noteq> NIL \<longrightarrow> removed_of (snd r) n)", rotated], goal_cases)
    case (1 f t up n c y)
    show ?case
    proof (cases "n = NIL")
      case True
      with 1(2) show ?thesis by auto
    next
      case False
      with 1(2) obtain nxt r where
        r: "remove t n = Some r" and f: "f (snd r) up nxt (c @ [(key_of t n, val_of t n)]) = Some y"
        by (auto simp: bind_eq_Some_conv split: if_splits)
      from remove_result [of t n "fst r" "snd r"] r
      have rm: "removed_of (snd r) = (removed_of t)(n := True)" by simp
      from 1(1) [OF f] rm show ?thesis by simp
    qed
  qed
  then show ?thesis by simp
qed

lemma delete_range_kind:
  "delete_range t r = Some (res, r', t') \<Longrightarrow> r' = r\<lparr>kind := Removed\<rparr>"
  by (cases r) (auto simp: delete_range_def split: if_splits option.splits)

lemma remove_range_kind:
  "remove_range t r = Some (res, r', t') \<Longrightarrow> r' = r\<lparr>kind := Removed\<rparr>"
  by (cases r) (auto simp: remove_range_def split: if_splits option.splits)

lemma delete_range_lower_removed:
  assumes "delete_range t r = Some (Inr c, r', t')" and "kind r = Default" and "lower r \<noteq> NIL"
  shows "removed_of t' (lower r)"
  using assms delete_loop_removed [of t "upper r" "lower r" 0 c t']
  by (auto simp: delete_range_def isEmpty_kind_def split: if_splits option.splits)

lemma remove_range_lower_removed:
  assumes "remove_range t r = Some (Inr xs, r', t')" and "kind r = Default" and "lower r \<noteq> NIL"
  shows "removed_of t' (lower r)"
  using assms remove_loop_removed [of t "upper r" "lower r" "[]" xs t']
  by (auto simp: remove_range_def isEmpty_kind_def split: if_splits option.splits)

lemma removed_range_quiet:
  assumes "kind r = Removed"
  shows "delete_range t r = Some (Inr 0, r, t)" "remove_range t r = Some (Inr [], r, t)"
    "count_range t r = Some (Inr 0)" "isEmpty_range r"
    "inorder_range t r = Some (Inr [])" "inorderReverse_range t r = Some (Inr [])"
    "keys_range t r = Some (Inr [])" "values_range t r = Some (Inr [])"
    "entries_range t r = Some (Inr [])" "entriesReverse_range t r = Some (Inr [])"
  using assms
  by (simp_all add: delete_range_def remove_range_def count_range_def isEmpty_range_def
      isEmpty_kind_def inorder_range_def inorderReverse_range_def keys_range_def
      values_range_def entries_range_def entriesReverse_range_def)

lemma empty_range_consumed:
  assumes "kind r \<noteq> Default"
  shows "delete_range t r = Some (Inr 0, r\<lparr>kind := Removed\<rparr>, t)"
    "remove_range t r = Some (Inr [], r\<lparr>kind := Removed\<rparr>, t)"
  using assms
  by (cases r; simp add: delete_range_def remove_range_def isEmpty_kind_def)+

text \<open>
  Claim C7 says that \<^verbatim>\<open>first()\<close> and \<^verbatim>\<open>last()\<close> of a consumed range raise
  \<^verbatim>\<open>ConsumedRange\<close>.  Both methods validate their bound before they look at the kind.
  On \<open>tree_23\<close> the range without bounds runs from node 1 to node 2; after its
  \<^verbatim>\<open>delete()\<close> has removed both, \<^verbatim>\<open>first()\<close> and \<^verbatim>\<open>last()\<close> raise the error of a removed
  node, \<^verbatim>\<open>StaleCursor\<close>.
\<close>

theorem consumed_range_first_counterexample:
  "range_tree tree_23 None None False = Some (Inr \<lparr>lower = 1, upper = 2, kind = Default\<rparr>) \<and>
   (case delete_range tree_23 \<lparr>lower = 1, upper = 2, kind = Default\<rparr> of
      None \<Rightarrow> None
    | Some (c, r', t') \<Rightarrow> Some (c, kind r', first_range t' r', last_range t' r'))
     = Some (Inr 2, Removed, Some (Inl StaleCursor), Some (Inl StaleCursor)) \<and>
   StaleCursor \<noteq> ConsumedRange"
proof -
  have "range_tree tree_23 None None False
          = Some (Inr \<lparr>lower = 1, upper = 2, kind = Default\<rparr>)"
    unfolding tree_23_def by code_simp
  moreover have "(case delete_range tree_23 \<lparr>lower = 1, upper = 2, kind = Default\<rparr> of
      None \<Rightarrow> None
    | Some (c, r', t') \<Rightarrow> Some (c, kind r', first_range t' r', last_range t' r'))
     = Some (Inr 2, Removed, Some (Inl StaleCursor), Some (Inl StaleCursor))"
    unfolding tree_23_def by code_simp
  ultimately show ?thesis
    by simp
qed

text \<open>
  Claim C7 as amended.  A call of \<^verbatim>\<open>delete()\<close> or \<^verbatim>\<open>remove()\<close> that returns or raises
  leaves the range with kind \<^verbatim>\<open>Removed\<close> and its bounds as they were; on a range of an
  empty kind it returns 0, or the empty array, and writes nothing to the tree.  On a range
  of kind \<^verbatim>\<open>Removed\<close>, \<^verbatim>\<open>delete()\<close> returns 0 and \<^verbatim>\<open>remove()\<close> the empty array, both
  without a change to the range or the tree, \<^verbatim>\<open>count()\<close> is 0, the iterations yield
  nothing, and \<^verbatim>\<open>first()\<close> and \<^verbatim>\<open>last()\<close> raise an error: \<^verbatim>\<open>StaleCursor\<close> when the
  bound they validate is tombstoned, \<^verbatim>\<open>ConsumedRange\<close> otherwise.  After \<^verbatim>\<open>delete()\<close> or
  \<^verbatim>\<open>remove()\<close> has returned on a range of kind \<^verbatim>\<open>Default\<close>, the lower bound is
  tombstoned, so \<^verbatim>\<open>first()\<close> raises \<^verbatim>\<open>StaleCursor\<close>.
\<close>

theorem range_single_consumption:
  "(delete_range t r = Some (res, r', t') \<longrightarrow> r' = r\<lparr>kind := Removed\<rparr>) \<and>
   (remove_range t r = Some (res', r', t') \<longrightarrow> r' = r\<lparr>kind := Removed\<rparr>) \<and>
   (kind r \<noteq> Default \<longrightarrow>
      delete_range t r = Some (Inr 0, r\<lparr>kind := Removed\<rparr>, t) \<and>
      remove_range t r = Some (Inr [], r\<lparr>kind := Removed\<rparr>, t)) \<and>
   (kind r = Removed \<longrightarrow>
      delete_range t r = Some (Inr 0, r, t) \<and> remove_range t r = Some (Inr [], r, t) \<and>
      count_range t r = Some (Inr 0) \<and> isEmpty_range r \<and>
      inorder_range t r = Some (Inr []) \<and> inorderReverse_range t r = Some (Inr []) \<and>
      keys_range t r = Some (Inr []) \<and> values_range t r = Some (Inr []) \<and>
      entries_range t r = Some (Inr []) \<and> entriesReverse_range t r = Some (Inr []) \<and>
      first_range t r
        = Some (Inl (if removed_of t (lower r) then StaleCursor else ConsumedRange)) \<and>
      last_range t r
        = Some (Inl (if removed_of t (upper r) then StaleCursor else ConsumedRange))) \<and>
   (kind r = Default \<and> lower r \<noteq> NIL \<and>
    (delete_range t r = Some (Inr c, r', t') \<or> remove_range t r = Some (Inr xs, r', t')) \<longrightarrow>
      removed_of t' (lower r) \<and> first_range t' r' = Some (Inl StaleCursor))"
proof -
  have last: "kind r = Default \<and> lower r \<noteq> NIL \<and>
    (delete_range t r = Some (Inr c, r', t') \<or> remove_range t r = Some (Inr xs, r', t')) \<longrightarrow>
      removed_of t' (lower r) \<and> first_range t' r' = Some (Inl StaleCursor)"
  proof (intro impI, elim conjE)
    assume k: "kind r = Default" and l: "lower r \<noteq> NIL"
      and d: "delete_range t r = Some (Inr c, r', t') \<or> remove_range t r = Some (Inr xs, r', t')"
    from d k l have rm: "removed_of t' (lower r)"
      by (auto dest: delete_range_lower_removed remove_range_lower_removed)
    from d have r': "r' = r\<lparr>kind := Removed\<rparr>"
      by (auto dest: delete_range_kind remove_range_kind)
    from rm r' show "removed_of t' (lower r) \<and> first_range t' r' = Some (Inl StaleCursor)"
      by (simp add: first_range_def validate_def)
  qed
  show ?thesis
    by (intro conjI impI last)
       (auto simp: removed_range_quiet consumed_range empty_range_consumed
        dest: delete_range_kind remove_range_kind)
qed

theorem range_single_consumption_witness:
  "\<exists>t'. delete_range tree_23 \<lparr>lower = 1, upper = 2, kind = Default\<rparr>
           = Some (Inr 2, \<lparr>lower = 1, upper = 2, kind = Removed\<rparr>, t') \<and>
         removed_of t' 1 \<and>
         first_range t' \<lparr>lower = 1, upper = 2, kind = Removed\<rparr>
           = (Some (Inl StaleCursor) :: (error + int WAVLMapEntry) option) \<and>
         delete_range t' \<lparr>lower = 1, upper = 2, kind = Removed\<rparr>
           = Some (Inr 0, \<lparr>lower = 1, upper = 2, kind = Removed\<rparr>, t') \<and>
         remove_range t' \<lparr>lower = 1, upper = 2, kind = Removed\<rparr>
           = Some (Inr [], \<lparr>lower = 1, upper = 2, kind = Removed\<rparr>, t') \<and>
         entries_range t' \<lparr>lower = 1, upper = 2, kind = Removed\<rparr> = Some (Inr [])"
proof -
  let ?r = "\<lparr>lower = 1, upper = 2, kind = Default\<rparr>"
  let ?r' = "\<lparr>lower = 1, upper = 2, kind = Removed\<rparr>"
  have "map_option fst (delete_range tree_23 ?r) = Some (Inr 2)"
    unfolding tree_23_def by code_simp
  then obtain r' t' where d: "delete_range tree_23 ?r = Some (Inr 2, r', t')"
    by (cases "delete_range tree_23 ?r") auto
  note th = range_single_consumption [of tree_23 ?r "Inr 2" r' t' "Inr []" 2 "[]"]
  from th d have r': "r' = ?r'"
    by simp
  from th d have rm: "removed_of t' 1"
    by (simp add: NIL_def)
  from th d r' have f: "first_range t' ?r'
      = (Some (Inl StaleCursor) :: (error + int WAVLMapEntry) option)"
    by (simp add: NIL_def)
  note th' = range_single_consumption [of t' ?r' "Inr 0" ?r' t' "Inr []" 0 "[]"]
  from th' have q: "delete_range t' ?r' = Some (Inr 0, ?r', t')"
    "remove_range t' ?r' = Some (Inr [], ?r', t')" "entries_range t' ?r' = Some (Inr [])"
    by simp_all
  from d r' rm f q show ?thesis
    by auto
qed

section \<open>Positional insertion turns a vacant entry into an occupied one\<close>







section \<open>Entries after \<^verbatim>\<open>clear\<close>\<close>

lemma clear_fields [simp]:
  "root (clear t) = NIL" "tsize (clear t) = 0" "heap (clear t) = heap t"
  "compare (clear t) = compare t" "fresh (clear t) = fresh t"
  "key_of (clear t) = key_of t" "val_of (clear t) = val_of t" "parity_of (clear t) = parity_of t"
  "parent_of (clear t) = parent_of t" "left_of (clear t) = left_of t"
  "right_of (clear t) = right_of t" "removed_of (clear t) = removed_of t"
  by (simp_all add: clear_def field_defs fun_eq_iff)

lemma valid_entry_not_stale:
  assumes "validate_entry t e = None"
  shows "prev_entry t e \<noteq> Some (Inl StaleCursor)" "next_entry t e \<noteq> Some (Inl StaleCursor)"
    "insertBefore_entry t e k v \<noteq> Some (Inl StaleCursor, e', t')"
    "insertAfter_entry t e k v \<noteq> Some (Inl StaleCursor, e', t')"
    "insert_entry t e v \<noteq> Some (Inl StaleCursor, e', t')"
    "set_entry t e v \<noteq> Some (Inl StaleCursor, e', t')"
    "delete_entry t e \<noteq> Some (Inl StaleCursor, t')"
    "remove_entry t e \<noteq> Some (Inl StaleCursor, t')"
proof -
  from assms have nr: "\<not> removed_of t (node_of (inner e))"
    by (simp add: validate_entry_def validate_inner_def validate_def split: if_splits)
  show "prev_entry t e \<noteq> Some (Inl StaleCursor)" "next_entry t e \<noteq> Some (Inl StaleCursor)"
    using assms by (auto simp: prev_entry_def next_entry_def)
  show "insertBefore_entry t e k v \<noteq> Some (Inl StaleCursor, e', t')"
    "insertAfter_entry t e k v \<noteq> Some (Inl StaleCursor, e', t')"
    "insert_entry t e v \<noteq> Some (Inl StaleCursor, e', t')"
    "set_entry t e v \<noteq> Some (Inl StaleCursor, e', t')"
    "delete_entry t e \<noteq> Some (Inl StaleCursor, t')"
    "remove_entry t e \<noteq> Some (Inl StaleCursor, t')"
    using nr
    by (auto dest: insertBefore_entry_error insertAfter_entry_error insert_entry_error
        set_entry_error delete_entry_error remove_entry_error)
qed

lemma delete_entry_occupied:
  assumes "delete_entry t (WAVLMapEntry (Occupied n)) = Some (res, t')" and "\<not> removed_of t n"
  shows "res = Inr True \<and> tsize t' = tsize t - 1 \<and> removed_of t' n \<and>
         remove t n = Some (n, t')"
  using assms
  by (auto simp: delete_entry_def validate_entry_def validate_inner_def validate_def
      split: option.splits if_splits dest: remove_result)

text \<open>
  Claim C8.  \<^verbatim>\<open>clear()\<close> sets the root to the sentinel and the size to 0 and writes to
  no node, so no removed flag changes.  An entry that passed validation before
  \<^verbatim>\<open>clear()\<close> passes it afterwards, and none of its methods raises \<^verbatim>\<open>StaleCursor\<close>.
  When \<^verbatim>\<open>delete()\<close> on an occupied entry of a node that was live before \<^verbatim>\<open>clear()\<close>
  returns, it returns true and the size is \<open>-1\<close>.
\<close>

theorem clear_keeps_entries_valid:
  "root (clear t) = NIL \<and> tsize (clear t) = 0 \<and> heap (clear t) = heap t \<and>
   removed_of (clear t) = removed_of t \<and>
   (validate_entry t e = None \<longrightarrow>
      validate_entry (clear t) e = None \<and>
      prev_entry (clear t) e \<noteq> Some (Inl StaleCursor) \<and>
      next_entry (clear t) e \<noteq> Some (Inl StaleCursor) \<and>
      insertBefore_entry (clear t) e k v \<noteq> Some (Inl StaleCursor, e', t') \<and>
      insertAfter_entry (clear t) e k v \<noteq> Some (Inl StaleCursor, e', t') \<and>
      insert_entry (clear t) e v \<noteq> Some (Inl StaleCursor, e', t') \<and>
      set_entry (clear t) e v \<noteq> Some (Inl StaleCursor, e', t') \<and>
      delete_entry (clear t) e \<noteq> Some (Inl StaleCursor, t') \<and>
      remove_entry (clear t) e \<noteq> Some (Inl StaleCursor, t')) \<and>
   (\<not> removed_of t n \<and> delete_entry (clear t) (WAVLMapEntry (Occupied n)) = Some (res, t') \<longrightarrow>
      res = Inr True \<and> tsize t' = - 1 \<and> tsize t' < 0)"
proof -
  have v: "validate_entry t e = None \<Longrightarrow> validate_entry (clear t) e = None"
    by (simp add: validate_entry_def validate_inner_def validate_def)
  have d: "\<not> removed_of t n \<and> delete_entry (clear t) (WAVLMapEntry (Occupied n)) = Some (res, t')
      \<longrightarrow> res = Inr True \<and> tsize t' = - 1 \<and> tsize t' < 0"
    using delete_entry_occupied [of "clear t" n res t'] by auto
  have s: "validate_entry t e = None \<longrightarrow>
      validate_entry (clear t) e = None \<and>
      prev_entry (clear t) e \<noteq> Some (Inl StaleCursor) \<and>
      next_entry (clear t) e \<noteq> Some (Inl StaleCursor) \<and>
      insertBefore_entry (clear t) e k v \<noteq> Some (Inl StaleCursor, e', t') \<and>
      insertAfter_entry (clear t) e k v \<noteq> Some (Inl StaleCursor, e', t') \<and>
      insert_entry (clear t) e v \<noteq> Some (Inl StaleCursor, e', t') \<and>
      set_entry (clear t) e v \<noteq> Some (Inl StaleCursor, e', t') \<and>
      delete_entry (clear t) e \<noteq> Some (Inl StaleCursor, t') \<and>
      remove_entry (clear t) e \<noteq> Some (Inl StaleCursor, t')"
    using v valid_entry_not_stale [of "clear t" e] by blast
  from s d show ?thesis
    by simp
qed

theorem clear_keeps_entries_valid_witness:
  "validate_entry tree_23 (WAVLMapEntry (Occupied 2) :: int WAVLMapEntry) = None \<and>
   validate_entry (clear tree_23) (WAVLMapEntry (Occupied 2) :: int WAVLMapEntry) = None \<and>
   (\<exists>t'. delete_entry (clear tree_23) (WAVLMapEntry (Occupied 2)) = Some (Inr True, t') \<and>
          tsize t' = - 1)"
proof -
  have nr: "\<not> removed_of tree_23 2"
    by (simp add: tree_23_def removed_of_def)
  then have v: "validate_entry tree_23 (WAVLMapEntry (Occupied 2) :: int WAVLMapEntry) = None"
    by (simp add: validate_entry_def validate_inner_def validate_def)
  have "map_option fst (delete_entry (clear tree_23) (WAVLMapEntry (Occupied 2)))
          = Some (Inr True)"
    unfolding tree_23_def by code_simp
  then obtain t' where
    d: "delete_entry (clear tree_23) (WAVLMapEntry (Occupied 2)) = Some (Inr True, t')"
    by (cases "delete_entry (clear tree_23) (WAVLMapEntry (Occupied 2))") auto
  from clear_keeps_entries_valid
    [where t = tree_23 and e = "WAVLMapEntry (Occupied 2)" and n = 2 and res = "Inr True"
       and t' = t'] nr v d
  show ?thesis
    by auto
qed

end
